theory Spec2Isabelle
  imports Complex_Main
begin

section \<open>JavaScript numbers and values\<close>

text \<open>
  The library computes with JavaScript numbers.  A number is modelled as an exact rational
  or one of the three special values of IEEE arithmetic; the special values follow the
  rules of the language (\<open>1 / 0\<close> is \<open>Infinity\<close>, \<open>0 * Infinity\<close> and
  \<open>Infinity - Infinity\<close> are \<open>NaN\<close>, \<open>NaN\<close> is contagious).  Arithmetic on finite
  numbers is exact: rounding, overflow to infinity and the sign of zero are not modelled.
  A slot of a matrix or of an array holds a number or is \<open>undefined\<close> (never written, or
  deleted); \<open>getDeterminant\<close> may also return \<open>null\<close>.
\<close>

datatype number = Fin rat | NaN | PosInf | NegInf

datatype jsval = Number number | Undefined | Null

text \<open>ToNumber: \<open>undefined\<close> becomes \<open>NaN\<close>, \<open>null\<close> becomes \<open>0\<close>.\<close>

fun toNumber :: "jsval \<Rightarrow> number" where
  "toNumber (Number n) = n"
| "toNumber Undefined = NaN"
| "toNumber Null = Fin 0"

text \<open>The infinity with the sign of \<open>s\<close>; \<open>NaN\<close> when \<open>s\<close> is zero.\<close>

definition inf_of :: "rat \<Rightarrow> number" where
  "inf_of s = (if s = 0 then NaN else if 0 < s then PosInf else NegInf)"

fun nneg :: "number \<Rightarrow> number" where
  "nneg (Fin x) = Fin (- x)"
| "nneg NaN = NaN"
| "nneg PosInf = NegInf"
| "nneg NegInf = PosInf"

fun nadd :: "number \<Rightarrow> number \<Rightarrow> number" where
  "nadd (Fin x) (Fin y) = Fin (x + y)"
| "nadd NaN _ = NaN"
| "nadd _ NaN = NaN"
| "nadd (Fin x) PosInf = PosInf"
| "nadd (Fin x) NegInf = NegInf"
| "nadd PosInf (Fin y) = PosInf"
| "nadd NegInf (Fin y) = NegInf"
| "nadd PosInf PosInf = PosInf"
| "nadd NegInf NegInf = NegInf"
| "nadd PosInf NegInf = NaN"
| "nadd NegInf PosInf = NaN"

definition nsub :: "number \<Rightarrow> number \<Rightarrow> number" where
  "nsub a b = nadd a (nneg b)"

fun nmul :: "number \<Rightarrow> number \<Rightarrow> number" where
  "nmul (Fin x) (Fin y) = Fin (x * y)"
| "nmul NaN _ = NaN"
| "nmul _ NaN = NaN"
| "nmul (Fin x) PosInf = inf_of x"
| "nmul (Fin x) NegInf = inf_of (- x)"
| "nmul PosInf (Fin y) = inf_of y"
| "nmul NegInf (Fin y) = inf_of (- y)"
| "nmul PosInf PosInf = PosInf"
| "nmul NegInf NegInf = PosInf"
| "nmul PosInf NegInf = NegInf"
| "nmul NegInf PosInf = NegInf"

fun ndiv :: "number \<Rightarrow> number \<Rightarrow> number" where
  "ndiv (Fin x) (Fin y) = (if y = 0 then inf_of x else Fin (x / y))"
| "ndiv NaN _ = NaN"
| "ndiv _ NaN = NaN"
| "ndiv (Fin x) PosInf = Fin 0"
| "ndiv (Fin x) NegInf = Fin 0"
| "ndiv PosInf (Fin y) = (if y < 0 then NegInf else PosInf)"
| "ndiv NegInf (Fin y) = (if y < 0 then PosInf else NegInf)"
| "ndiv PosInf PosInf = NaN"
| "ndiv NegInf NegInf = NaN"
| "ndiv PosInf NegInf = NaN"
| "ndiv NegInf PosInf = NaN"

text \<open>The operators \<open>+\<close>, \<open>-\<close>, \<open>*\<close>, \<open>/\<close> and unary minus on values.\<close>

definition jadd :: "jsval \<Rightarrow> jsval \<Rightarrow> jsval" where
  "jadd a b = Number (nadd (toNumber a) (toNumber b))"

definition jsub :: "jsval \<Rightarrow> jsval \<Rightarrow> jsval" where
  "jsub a b = Number (nsub (toNumber a) (toNumber b))"

definition jmul :: "jsval \<Rightarrow> jsval \<Rightarrow> jsval" where
  "jmul a b = Number (nmul (toNumber a) (toNumber b))"

definition jdiv :: "jsval \<Rightarrow> jsval \<Rightarrow> jsval" where
  "jdiv a b = Number (ndiv (toNumber a) (toNumber b))"

definition jneg :: "jsval \<Rightarrow> jsval" where
  "jneg a = Number (nneg (toNumber a))"

text \<open>Strict equality \<open>===\<close>: \<open>NaN\<close> equals nothing, not even itself.\<close>

fun seq :: "jsval \<Rightarrow> jsval \<Rightarrow> bool" where
  "seq (Number a) (Number b) = (a \<noteq> NaN \<and> a = b)"
| "seq Undefined Undefined = True"
| "seq Null Null = True"
| "seq _ _ = False"

text \<open>The values that \<open>!x\<close> takes for false: \<open>0\<close>, \<open>NaN\<close>, \<open>undefined\<close>, \<open>null\<close>.\<close>

fun falsy :: "jsval \<Rightarrow> bool" where
  "falsy (Number (Fin x)) = (x = 0)"
| "falsy (Number NaN) = True"
| "falsy (Number _) = False"
| "falsy Undefined = True"
| "falsy Null = True"

abbreviation num :: "rat \<Rightarrow> jsval" where
  "num x \<equiv> Number (Fin x)"

section \<open>Indexed properties and arrays\<close>

text \<open>
  The indexed properties \<open>this[0]\<close>, \<open>this[1]\<close>, ... of an object, and the elements of an
  array, are a list; a hole is \<open>Undefined\<close>, and a read past the end gives \<open>undefined\<close>.
  A write past the end creates the property (for an array, it extends the array).
\<close>

definition aget :: "jsval list \<Rightarrow> nat \<Rightarrow> jsval" where
  "aget xs i = (if i < length xs then xs ! i else Undefined)"

definition aset :: "jsval list \<Rightarrow> nat \<Rightarrow> jsval \<Rightarrow> jsval list" where
  "aset xs i v =
     (if i < length xs then xs[i := v] else xs @ replicate (i - length xs) Undefined @ [v])"

text \<open>\<open>for (i = a; i < b; i++) delete this[i]\<close>: deleting the topmost properties shortens
  the list, deleting inside it leaves holes.\<close>

definition delete_range :: "nat \<Rightarrow> nat \<Rightarrow> jsval list \<Rightarrow> jsval list" where
  "delete_range a b xs =
     (if b \<le> a then xs
      else if length xs \<le> b then take a xs
      else take a xs @ replicate (b - a) Undefined @ drop b xs)"

text \<open>\<open>for (i = 0; i < new.length; i++) this[i] = new[i]\<close>.\<close>

definition assign_prefix :: "jsval list \<Rightarrow> jsval list \<Rightarrow> jsval list" where
  "assign_prefix new old = new @ drop (length new) old"

section \<open>The Matrix object\<close>

text \<open>
  A \<open>Matrix\<close> has the fields \<open>rows\<close>, \<open>cols\<close> and \<open>length\<close> and its values as indexed
  properties.  The scratch matrices of \<open>_cache\<close> are not part of the record: the methods
  that use them are modelled for an object whose cache is still empty, as it is for every
  matrix that the constructor, \<open>clone\<close> or a static operation has just made.
\<close>

record matrix =
  rows :: nat
  cols :: nat
  len :: nat
  vals :: "jsval list"

definition elem :: "matrix \<Rightarrow> nat \<Rightarrow> jsval" where
  "elem m i = aget (vals m) i"

definition mstore :: "matrix \<Rightarrow> nat \<Rightarrow> jsval \<Rightarrow> matrix" where
  "mstore m i v = m\<lparr>vals := aset (vals m) i v\<rparr>"

text \<open>A matrix is well formed when \<open>length\<close> is \<open>rows * cols\<close> and exactly the properties
  below \<open>length\<close> exist.\<close>

definition wf :: "matrix \<Rightarrow> bool" where
  "wf m = (len m = rows m * cols m \<and> length (vals m) = len m)"

definition setEmptyData :: "matrix \<Rightarrow> matrix" where
  "setEmptyData this =
     this\<lparr>vals := assign_prefix (map (\<lambda>i. num 0) [0..<len this]) (vals this)\<rparr>"

definition identity_at :: "matrix \<Rightarrow> nat \<Rightarrow> jsval" where
  "identity_at this i = (if i mod (cols this + 1) \<noteq> 0 then num 0 else num 1)"

definition setIdentityData :: "matrix \<Rightarrow> matrix" where
  "setIdentityData this =
     this\<lparr>vals := assign_prefix (map (identity_at this) [0..<len this]) (vals this)\<rparr>"

text \<open>\<open>new Matrix(opt_rows, opt_cols, opt_setInitial)\<close>; \<open>x || y\<close> takes \<open>y\<close> when \<open>x\<close> is
  missing or zero.\<close>

definition new_Matrix :: "nat option \<Rightarrow> nat option \<Rightarrow> bool option \<Rightarrow> matrix" where
  "new_Matrix opt_rows opt_cols opt_setInitial =
     (let r = (case opt_rows of None \<Rightarrow> 0 | Some r \<Rightarrow> r);
          c = (case opt_cols of None \<Rightarrow> r | Some c \<Rightarrow> if c = 0 then r else c);
          this = \<lparr>rows = r, cols = c, len = r * c, vals = []\<rparr>;
          setInitial = (case opt_setInitial of None \<Rightarrow> True | Some b \<Rightarrow> b)
      in if setInitial
         then (if rows this = cols this then setIdentityData this else setEmptyData this)
         else this)"

text \<open>\<open>setData(data, opt_rows, opt_cols)\<close> with \<open>data\<close> an array.\<close>

definition setData :: "matrix \<Rightarrow> jsval list \<Rightarrow> nat option \<Rightarrow> nat option \<Rightarrow> matrix" where
  "setData this data opt_rows opt_cols =
     (if length data \<noteq> len this \<and> (opt_rows = None \<or> opt_cols = None) then this
      else if length data \<noteq> len this \<and> the opt_rows * the opt_cols \<noteq> length data then this
      else this\<lparr>vals := assign_prefix data (delete_range (length data) (len this) (vals this)),
                len := length data,
                rows := (case opt_rows of None \<Rightarrow> rows this
                         | Some r \<Rightarrow> if r = 0 then rows this else r),
                cols := (case opt_cols of None \<Rightarrow> cols this
                         | Some c \<Rightarrow> if c = 0 then cols this else c)\<rparr>)"

text \<open>\<open>setData(v0, v1, ...)\<close> with the values as separate arguments: \<open>data\<close> is the
  argument list and no size is given.\<close>

definition setData_args :: "matrix \<Rightarrow> jsval list \<Rightarrow> matrix" where
  "setData_args this args = setData this args None None"

text \<open>\<open>toArray\<close> and \<open>getData\<close>: a new array of \<open>length\<close> slots, filled from the
  properties; \<open>getData\<close> tags it with \<open>rows\<close> and \<open>cols\<close>.\<close>

record data =
  drows :: nat
  dcols :: nat
  dvals :: "jsval list"

definition toArray :: "matrix \<Rightarrow> jsval list" where
  "toArray this = map (elem this) [0..<len this]"

definition getData :: "matrix \<Rightarrow> data" where
  "getData this = \<lparr>drows = rows this, dcols = cols this, dvals = toArray this\<rparr>"

definition copy :: "matrix \<Rightarrow> matrix \<Rightarrow> matrix" where
  "copy this matrix =
     this\<lparr>vals := assign_prefix (map (elem matrix) [0..<len matrix])
                      (delete_range (len matrix) (len this) (vals this)),
          len := len matrix,
          rows := (if len matrix \<noteq> len this then rows matrix else rows this),
          cols := (if len matrix \<noteq> len this then cols matrix else cols this)\<rparr>"

definition clone :: "matrix \<Rightarrow> matrix" where
  "clone this = copy (new_Matrix (Some (rows this)) (Some (cols this)) (Some False)) this"

definition equals :: "matrix \<Rightarrow> matrix \<Rightarrow> bool" where
  "equals this input =
     (if rows this \<noteq> rows input \<or> cols this \<noteq> cols input then False
      else list_all (\<lambda>i. seq (elem this i) (elem input i)) [0..<len this])"

definition isIdentity :: "matrix \<Rightarrow> bool" where
  "isIdentity this = list_all (\<lambda>i. seq (elem this i) (identity_at this i)) [0..<len this]"


section \<open>Elementwise operations\<close>

text \<open>
  \<open>add\<close> and \<open>subtract\<close> go through their arguments from left to right and change
  \<open>this\<close> in place.  An argument is read when its turn comes, so an argument that is the
  object \<open>this\<close> itself is read as the earlier arguments have left it; any other matrix
  is not changed by the call.
\<close>

datatype argument = This | Other matrix

text \<open>The matrix that \<open>matrices[i]\<close> is when its turn comes.\<close>

fun argument_now :: "matrix \<Rightarrow> argument \<Rightarrow> matrix" where
  "argument_now this This = this"
| "argument_now this (Other matrix) = matrix"

text \<open>One pass of the outer loop: \<open>this[n] += matrix[n]\<close> for every \<open>n\<close> below
  \<open>this.length\<close>, unless the sizes differ.\<close>

definition add_step :: "matrix \<Rightarrow> matrix \<Rightarrow> matrix" where
  "add_step this matrix =
     (if cols matrix \<noteq> cols this \<or> rows matrix \<noteq> rows this then this
      else this\<lparr>vals := assign_prefix
                  (map (\<lambda>n. jadd (elem this n) (elem matrix n)) [0..<len this]) (vals this)\<rparr>)"

definition add :: "matrix \<Rightarrow> argument list \<Rightarrow> matrix" where
  "add this matrices = foldl (\<lambda>this a. add_step this (argument_now this a)) this matrices"

definition subtract_step :: "matrix \<Rightarrow> matrix \<Rightarrow> matrix" where
  "subtract_step this matrix =
     (if cols matrix \<noteq> cols this \<or> rows matrix \<noteq> rows this then this
      else this\<lparr>vals := assign_prefix
                  (map (\<lambda>n. jsub (elem this n) (elem matrix n)) [0..<len this]) (vals this)\<rparr>)"

definition subtract :: "matrix \<Rightarrow> argument list \<Rightarrow> matrix" where
  "subtract this matrices =
     foldl (\<lambda>this a. subtract_step this (argument_now this a)) this matrices"

text \<open>The static \<open>Matrix.add(first, ...)\<close> and \<open>Matrix.subtract(first, ...)\<close> work on a
  clone of the first matrix, a new object that none of the other arguments can be.\<close>

definition Matrix_add :: "matrix \<Rightarrow> matrix list \<Rightarrow> matrix" where
  "Matrix_add firstMatrix matrices = add (clone firstMatrix) (map Other matrices)"

definition Matrix_subtract :: "matrix \<Rightarrow> matrix list \<Rightarrow> matrix" where
  "Matrix_subtract firstMatrix matrices = subtract (clone firstMatrix) (map Other matrices)"

section \<open>Chain multiplication\<close>

text \<open>An argument of \<open>multiply\<close> is a number or a matrix.\<close>

datatype operand = Scalar number | Mat matrix

text \<open>
  The pool of \<open>arrays\<close> hands out an array of the requested length whose slots are all
  \<open>undefined\<close> (\<open>giveBack\<close> resets every slot and the length), so
  \<open>arrays.getWithLength(n)\<close> is \<open>replicate n Undefined\<close> and \<open>giveBack\<close> has no effect
  on the result.
\<close>

text \<open>The scalar branch: \<open>newRows[n] = newRows[n] * (scale * factor) / factor\<close> with
  \<open>factor = 1 / scale\<close>.\<close>

definition scale_step :: "data \<Rightarrow> number \<Rightarrow> data" where
  "scale_step newRows scale =
     (let factor = ndiv (Fin 1) scale
      in newRows\<lparr>dvals := map (\<lambda>v. jdiv (jmul v (Number (nmul scale factor))) (Number factor))
                               (dvals newRows)\<rparr>)"

text \<open>
  The slot \<open>row * tempData.cols + currentCol\<close> of \<open>tempData\<close> after the innermost loop:
  it starts \<open>undefined\<close>, and each pass resets a false value to \<open>0\<close> before it adds the
  product.
\<close>

definition product_entry :: "data \<Rightarrow> matrix \<Rightarrow> nat \<Rightarrow> nat \<Rightarrow> jsval" where
  "product_entry newRows matrix row currentCol =
     foldl (\<lambda>t currentRow.
              jadd (if falsy t then num 0 else t)
                   (jmul (aget (dvals newRows) (row * dcols newRows + currentRow))
                         (elem matrix (currentRow * cols matrix + currentCol))))
           Undefined [0..<rows matrix]"

text \<open>The three nested loops fill the slots of \<open>tempData\<close>, an array of
  \<open>newRows.rows * matrix.cols\<close> slots, in index order.\<close>

definition product_step :: "data \<Rightarrow> matrix \<Rightarrow> data" where
  "product_step newRows matrix =
     \<lparr>drows = drows newRows, dcols = cols matrix,
      dvals = concat (map (\<lambda>row. map (product_entry newRows matrix row) [0..<cols matrix])
                          [0..<drows newRows])\<rparr>"

fun multiply_step :: "data \<Rightarrow> operand \<Rightarrow> data" where
  "multiply_step newRows (Scalar scale) = scale_step newRows scale"
| "multiply_step newRows (Mat matrix) =
     (if isIdentity matrix then newRows
      else if dcols newRows \<noteq> rows matrix then newRows
      else product_step newRows matrix)"

text \<open>The loop over the arguments from \<open>startIndex\<close> on, and the final \<open>setData\<close>.\<close>

definition multiply_from :: "matrix \<Rightarrow> operand list \<Rightarrow> matrix" where
  "multiply_from this matrices =
     (let newRows = foldl multiply_step (getData this) matrices
      in setData this (dvals newRows) (Some (drows newRows)) (Some (dcols newRows)))"

text \<open>
  The search of the identity shortcut, on the arguments from \<open>startIndex\<close> on: it returns
  the final \<open>startIndex\<close> and the final \<open>next\<close> (\<open>None\<close> for \<open>undefined\<close>, past the last
  argument).
\<close>

fun skip_identities :: "operand list \<Rightarrow> nat \<Rightarrow> nat \<times> operand option" where
  "skip_identities [] startIndex = (startIndex, None)"
| "skip_identities (Scalar next # rest) startIndex =
     (if next = Fin 1 then skip_identities rest (startIndex + 1)
      else (startIndex, Some (Scalar next)))"
| "skip_identities (Mat next # rest) startIndex =
     (if \<not> isIdentity next then (startIndex + 1, Some (Mat next))
      else skip_identities rest (startIndex + 1))"

definition multiply :: "matrix \<Rightarrow> operand list \<Rightarrow> matrix" where
  "multiply this matrices =
     (if isIdentity this then
        (case skip_identities matrices 0 of
           (startIndex, None) \<Rightarrow> this
         | (startIndex, Some (Scalar next)) \<Rightarrow>
             if falsy (Number next) then this
             else multiply_from this (drop startIndex matrices)
         | (startIndex, Some (Mat next)) \<Rightarrow>
             multiply_from (copy this next) (drop startIndex matrices))
      else multiply_from this matrices)"

text \<open>The plain left-to-right fold: \<open>multiply\<close> without the identity shortcut.\<close>

definition multiply_plain :: "matrix \<Rightarrow> operand list \<Rightarrow> matrix" where
  "multiply_plain this matrices = multiply_from this matrices"

definition Matrix_multiply :: "matrix \<Rightarrow> operand list \<Rightarrow> matrix" where
  "Matrix_multiply firstMatrix matrices = multiply (clone firstMatrix) matrices"

section \<open>Power\<close>

datatype error = RangeError

text \<open>\<open>new Array(n)\<close> throws a \<open>RangeError\<close> unless \<open>n\<close> is an integer from \<open>0\<close> to
  \<open>2^32 - 1\<close>.  The exponent is an integer here.\<close>

definition power_matrix :: "matrix \<Rightarrow> int \<Rightarrow> error + matrix" where
  "power_matrix this exponent =
     (if rows this \<noteq> cols this then Inr this
      else if exponent - 1 < 0 \<or> 2 ^ 32 \<le> exponent - 1 then Inl RangeError
      else Inr (multiply this (replicate (nat (exponent - 1)) (Mat (clone this)))))"

section \<open>Transpose, determinant and inverse\<close>

definition transpose_matrix :: "matrix \<Rightarrow> matrix" where
  "transpose_matrix this =
     (let numRows = rows this; numCols = cols this;
          newData = foldl (\<lambda>a row. foldl (\<lambda>a col.
                       aset a (col * numRows + row) (elem this (row * numCols + col)))
                     a [0..<numCols]) (replicate (len this) Undefined) [0..<numRows]
      in setData this newData (Some numCols) (Some numRows))"

text \<open>\<open>values.splice(row * colsPerRow, colsPerRow)\<close>.\<close>

definition removeRow :: "jsval list \<Rightarrow> nat \<Rightarrow> nat \<Rightarrow> jsval list" where
  "removeRow values row colsPerRow =
     take (row * colsPerRow) values @ drop (row * colsPerRow + colsPerRow) values"

text \<open>The slots whose index is not \<open>col\<close> modulo \<open>colsPerRow\<close> are kept (\<open>i % 0\<close> is
  \<open>NaN\<close>, which differs from every \<open>col\<close>).\<close>

definition removeColumn :: "jsval list \<Rightarrow> nat \<Rightarrow> nat \<Rightarrow> jsval list" where
  "removeColumn values col colsPerRow =
     map (\<lambda>i. values ! i)
       (filter (\<lambda>i. colsPerRow = 0 \<or> i mod colsPerRow \<noteq> col) [0..<length values])"

text \<open>
  The scratch matrix \<open>cache.tempMatrix\<close> after
  \<open>matrix.setData(newData, this.rows - 1, this.cols - 1)\<close>, where \<open>newData\<close> is the copy
  of the values without row \<open>row\<close> and column \<open>col\<close>.  The scratch matrix is taken as first
  created, \<open>new Matrix(this.rows, this.cols, false)\<close>: on a well-formed matrix every
  later pass of the loop sets data of the same length and size, which leaves the scratch
  matrix as a first \<open>setData\<close> would (lemma \<open>scratch_matrix_reuse\<close> below).
\<close>

definition minor_matrix :: "matrix \<Rightarrow> nat \<Rightarrow> nat \<Rightarrow> matrix" where
  "minor_matrix this row col =
     setData (new_Matrix (Some (rows this)) (Some (cols this)) (Some False))
       (removeColumn (removeRow (toArray this) row (cols this)) col (cols this))
       (Some (rows this - 1)) (Some (cols this - 1))"


subsection \<open>The values that remain when a row and a column are removed\<close>

text \<open>The row \<open>i\<close> of a flat array with \<open>c\<close> columns.\<close>

definition block :: "jsval list \<Rightarrow> nat \<Rightarrow> nat \<Rightarrow> jsval list" where
  "block xs c i = map (\<lambda>j. xs ! (i * c + j)) [0..<c]"

lemma upt_split3: "col < n \<Longrightarrow> [0..<n] = [0..<col] @ col # [Suc col..<n]"
  by (metis less_imp_le_nat upt_add_eq_append upt_conv_Cons zero_le le_add_diff_inverse)

lemma filter_mod_block:
  assumes c: "col < n"
  shows "filter (\<lambda>i. i mod n \<noteq> col) [0..<n] = [0..<col] @ [Suc col..<n]"
proof -
  have 1: "filter (\<lambda>i. i mod n \<noteq> col) [0..<col] = [0..<col]" using c by (auto simp: filter_id_conv)
  have 2: "filter (\<lambda>i. i mod n \<noteq> col) [Suc col..<n] = [Suc col..<n]" using c by (auto simp: filter_id_conv)
  show ?thesis using c 1 2 by (simp add: upt_split3[OF c])
qed

lemma map_nth_upt: "b \<le> length xs \<Longrightarrow> map ((!) xs) [a..<b] = take (b - a) (drop a xs)"
  by (auto intro!: nth_equalityI)


lemma removeColumn_append:
  assumes d: "n dvd length xs"
  shows "removeColumn (xs @ ys) col n = removeColumn xs col n @ removeColumn ys col n"
proof -
  define P where "P = (\<lambda>i. n = 0 \<or> i mod n \<noteq> col)"
  have u: "[0..<length xs + length ys] = [0..<length xs] @ map (\<lambda>i. i + length xs) [0..<length ys]"
    by (simp only: upt_add_eq_append[OF le0] map_add_upt add.commute add_0)
  have m: "\<And>i. (i + length xs) mod n = i mod n" using d by (simp add: mod_add_right_eq[symmetric, of _ "length xs"])
  have P: "\<And>i. P (i + length xs) = P i" unfolding P_def by (simp only: m)
  have a: "map (\<lambda>i. (xs @ ys) ! i) (filter P [0..<length xs]) = map (\<lambda>i. xs ! i) (filter P [0..<length xs])"
    by (rule map_cong[OF refl]) (simp add: nth_append)
  have "filter P (map (\<lambda>i. i + length xs) [0..<length ys]) = map (\<lambda>i. i + length xs) (filter P [0..<length ys])"
    by (simp only: filter_map comp_def P)
  then have b: "map (\<lambda>i. (xs @ ys) ! i) (filter P (map (\<lambda>i. i + length xs) [0..<length ys]))
         = map (\<lambda>i. ys ! i) (filter P [0..<length ys])"
    by (simp add: nth_append)
  have "removeColumn (xs @ ys) col n = map (\<lambda>i. (xs @ ys) ! i) (filter P [0..<length xs + length ys])"
    by (simp add: removeColumn_def P_def)
  also have "\<dots> = map (\<lambda>i. (xs @ ys) ! i) (filter P [0..<length xs]) @ map (\<lambda>i. (xs @ ys) ! i) (filter P (map (\<lambda>i. i + length xs) [0..<length ys]))"
    by (simp only: u filter_append map_append)
  also have "\<dots> = map (\<lambda>i. xs ! i) (filter P [0..<length xs]) @ map (\<lambda>i. ys ! i) (filter P [0..<length ys])"
    by (simp only: a b)
  also have "\<dots> = removeColumn xs col n @ removeColumn ys col n"
    by (simp add: removeColumn_def P_def)
  finally show ?thesis .
qed
lemma removeColumn_row:
  assumes "length r = n" "col < n"
  shows "removeColumn r col n = take col r @ drop (Suc col) r"
proof -
  have n0: "n \<noteq> 0" using assms by auto
  have "removeColumn r col n = map ((!) r) ([0..<col] @ [Suc col..<n])"
    unfolding removeColumn_def using assms n0 by (simp add: filter_mod_block)
  also have "\<dots> = take col r @ drop (Suc col) r"
    using assms by (simp add: map_nth_upt)
  finally show ?thesis .
qed

lemma removeColumn_Nil: "removeColumn [] col n = []"
  by (simp add: removeColumn_def)

lemma removeColumn_concat:
  "col < n \<Longrightarrow> list_all (\<lambda>r. length r = n) rs \<Longrightarrow>
   removeColumn (concat rs) col n = concat (map (\<lambda>r. take col r @ drop (Suc col) r) rs)"
proof (induction rs)
  case Nil then show ?case by (simp add: removeColumn_Nil)
next
  case (Cons r rs)
  have l: "length r = n" using Cons.prems by simp
  have "removeColumn (r @ concat rs) col n = removeColumn r col n @ removeColumn (concat rs) col n"
    by (rule removeColumn_append) (simp add: l)
  then show ?case using Cons l by (simp add: removeColumn_row)
qed

lemma length_block: "length (block xs c i) = c" by (simp add: block_def)

lemma take_drop_block:
  assumes "b * c + c \<le> length xs"
  shows "take c (drop (b * c) xs) = block xs c b"
proof (rule nth_equalityI)
  show "length (take c (drop (b * c) xs)) = length (block xs c b)"
    using assms by (simp add: block_def)
next
  fix i assume "i < length (take c (drop (b * c) xs))"
  then have i: "i < c" by simp
  then show "take c (drop (b * c) xs) ! i = block xs c b ! i"
    using assms by (simp add: block_def)
qed

lemma take_drop_blocks:
  "a \<le> b \<Longrightarrow> b * c \<le> length xs \<Longrightarrow>
   take ((b - a) * c) (drop (a * c) xs) = concat (map (block xs c) [a..<b])"
proof (induction b)
  case 0 then show ?case by simp
next
  case (Suc b)
  show ?case
  proof (cases "a = Suc b")
    case True then show ?thesis by simp
  next
    case False
    then have ab: "a \<le> b" using Suc.prems by simp
    have bl: "b * c \<le> length xs" using Suc.prems by simp
    have "Suc b - a = Suc (b - a)" using ab by (rule Suc_diff_le)
    then have e: "(Suc b - a) * c = (b - a) * c + c" by (simp only: mult_Suc add.commute)
    have "(b - a) * c + a * c = ((b - a) + a) * c" by (rule add_mult_distrib[symmetric])
    then have d: "(b - a) * c + a * c = b * c" using ab by (simp only: le_add_diff_inverse2)
    have "take ((b - a) * c + c) (drop (a * c) xs)
        = take ((b - a) * c) (drop (a * c) xs) @ take c (drop ((b - a) * c) (drop (a * c) xs))"
      by (rule take_add)
    also have "drop ((b - a) * c) (drop (a * c) xs) = drop (b * c) xs"
      by (simp only: drop_drop d)
    finally have "take ((Suc b - a) * c) (drop (a * c) xs)
        = take ((b - a) * c) (drop (a * c) xs) @ take c (drop (b * c) xs)"
      by (simp only: e)
    moreover have "take c (drop (b * c) xs) = block xs c b"
      by (rule take_drop_block) (use Suc.prems in simp)
    moreover have "[a..<Suc b] = [a..<b] @ [b]" using ab by simp
    ultimately show ?thesis using Suc.IH[OF ab bl] by (simp del: upt_Suc)
  qed
qed

lemma removeRow_blocks:
  assumes "length xs = r * c" "row < r"
  shows "removeRow xs row c = concat (map (block xs c) ([0..<row] @ [Suc row..<r]))"
proof -
  have 1: "take (row * c) xs = concat (map (block xs c) [0..<row])"
    using take_drop_blocks[of 0 row c xs] assms by simp
  have "take ((r - Suc row) * c) (drop (Suc row * c) xs) = concat (map (block xs c) [Suc row..<r])"
    using take_drop_blocks[of "Suc row" r c xs] assms by simp
  moreover have "length (drop (Suc row * c) xs) = (r - Suc row) * c"
    using assms by (simp add: diff_mult_distrib)
  ultimately have 2: "drop (row * c + c) xs = concat (map (block xs c) [Suc row..<r])"
    by (simp add: add.commute)
  show ?thesis unfolding removeRow_def using 1 2 by simp
qed

lemma remove_minor_blocks:
  assumes "length xs = r * c" "row < r" "col < c"
  shows "removeColumn (removeRow xs row c) col c
       = concat (map (\<lambda>i. map (\<lambda>j. xs ! (i * c + j)) ([0..<col] @ [Suc col..<c]))
                   ([0..<row] @ [Suc row..<r]))"
proof -
  have "removeColumn (removeRow xs row c) col c
      = concat (map (\<lambda>r. take col r @ drop (Suc col) r) (map (block xs c) ([0..<row] @ [Suc row..<r])))"
    unfolding removeRow_blocks[OF assms(1,2)]
    by (rule removeColumn_concat[OF assms(3)]) (auto simp: list_all_iff length_block)
  moreover have "\<And>i. take col (block xs c i) @ drop (Suc col) (block xs c i)
      = map (\<lambda>j. xs ! (i * c + j)) ([0..<col] @ [Suc col..<c])"
    using assms(3) unfolding block_def by (simp add: take_map drop_map)
  ultimately show ?thesis by (simp add: comp_def)
qed

lemma length_remove_minor:
  assumes "length xs = r * c" "row < r" "col < c"
  shows "length (removeColumn (removeRow xs row c) col c) = (r - 1) * (c - 1)"
proof -
  have "length (removeColumn (removeRow xs row c) col c)
      = sum_list (map (\<lambda>i. c - 1) ([0..<row] @ [Suc row..<r]))"
    unfolding remove_minor_blocks[OF assms] using assms
    by (simp add: length_concat comp_def del: map_append upt_Suc)
  also have "\<dots> = (row + (r - Suc row)) * (c - 1)"
    by (simp add: sum_list_triv add_mult_distrib)
  also have "row + (r - Suc row) = r - 1" using assms by simp
  finally show ?thesis .
qed



lemma new_Matrix_plain:
  "new_Matrix (Some r) (Some c) (Some False) = \<lparr>rows = r, cols = (if c = 0 then r else c), len = r * (if c = 0 then r else c), vals = []\<rparr>"
  by (simp add: new_Matrix_def Let_def)

lemma toArray_length: "length (toArray m) = len m"
  by (simp add: toArray_def)

lemma minor_matrix_rows:
  assumes "2 \<le> rows this" "2 \<le> cols this"
  shows "minor_matrix this row col = new_Matrix (Some (rows this)) (Some (cols this)) (Some False)
       \<or> rows (minor_matrix this row col) = rows this - 1"
  using assms unfolding minor_matrix_def setData_def by (auto simp: new_Matrix_plain)

lemma minor_matrix_shaped:
  assumes "len this = rows this * cols this" "row < rows this" "col < cols this"
    "2 \<le> rows this" "2 \<le> cols this"
  shows "rows (minor_matrix this row col) = rows this - 1"
proof -
  have "length (removeColumn (removeRow (toArray this) row (cols this)) col (cols this))
      = (rows this - 1) * (cols this - 1)"
    by (rule length_remove_minor) (simp_all add: assms toArray_length)
  then show ?thesis using assms unfolding minor_matrix_def setData_def
    by (auto simp: new_Matrix_plain)
qed


lemma scratch_matrix_reuse:
  assumes "0 < r" "0 < c" "length d1 = r * c" "length d2 = r * c" "length (vals m) \<le> len m"
  shows "setData (setData m d1 (Some r) (Some c)) d2 (Some r) (Some c)
       = setData m d2 (Some r) (Some c)"
  using assms
  by (simp add: setData_def assign_prefix_def delete_range_def)

subsection \<open>Determinant\<close>

text \<open>
  \<open>getDeterminant\<close>: \<open>null\<close> for a matrix that is not square, closed forms up to size
  3, and from size 4 on the expansion along the first row, each minor set into the scratch
  matrix and its determinant taken by the same method.  A square matrix with no rows falls
  through every case and returns \<open>undefined\<close>.
\<close>

function getDeterminant :: "matrix \<Rightarrow> jsval" where
  "getDeterminant this =
     (if rows this \<noteq> cols this then Null
      else if rows this = 1 then elem this 0
      else if rows this = 2 then
        jsub (jmul (elem this 0) (elem this 3)) (jmul (elem this 1) (elem this 2))
      else if rows this = 3 then
        (let a = elem this 0; b = elem this 1; c = elem this 2;
             d = elem this 3; e = elem this 4; f = elem this 5;
             g = elem this 6; h = elem this 7; i = elem this 8
         in jadd (jsub (jmul a (jsub (jmul e i) (jmul f h)))
                       (jmul b (jsub (jmul d i) (jmul f g))))
                 (jmul c (jsub (jmul d h) (jmul e g))))
      else if 4 \<le> rows this then
        foldl (\<lambda>result col.
                 jadd result
                   (jmul (jmul (if col mod 2 \<noteq> 0 then num (- 1) else num 1) (elem this col))
                         (getDeterminant (minor_matrix this 0 col))))
              (num 0) [0..<cols this]
      else Undefined)"
  by pat_completeness auto
termination
proof (relation "measure (\<lambda>m. 2 * rows m + (if len m = rows m * cols m then 0 else 1))", goal_cases)
  case 1 show ?case by simp
next
  case (2 this result col)
  then have sq: "rows this = cols this" and r4: "4 \<le> rows this" and c: "col < cols this" by auto
  let ?f = "new_Matrix (Some (rows this)) (Some (cols this)) (Some False)"
  show ?case
  proof (cases "len this = rows this * cols this")
    case True
    have "rows (minor_matrix this 0 col) = rows this - 1"
      by (rule minor_matrix_shaped) (use True sq r4 c in auto)
    then show ?thesis using r4 by auto
  next
    case False
    have "minor_matrix this 0 col = ?f \<or> rows (minor_matrix this 0 col) = rows this - 1"
      by (rule minor_matrix_rows) (use sq r4 in auto)
    then show ?thesis
    proof
      assume "minor_matrix this 0 col = ?f"
      then show ?thesis using False r4 sq by (simp add: new_Matrix_plain)
    next
      assume "rows (minor_matrix this 0 col) = rows this - 1"
      then show ?thesis using False r4 by auto
    qed
  qed
qed


subsection \<open>Inverse\<close>

text \<open>The cofactor of the slot at \<open>row\<close> and \<open>col\<close>: the determinant of the minor, its
  sign changed on the odd squares of the checkerboard.\<close>

definition coFactor :: "matrix \<Rightarrow> nat \<Rightarrow> nat \<Rightarrow> jsval" where
  "coFactor this row col =
     (let coFactor = getDeterminant (minor_matrix this row col);
          rowAlternate = (row mod 2 = 1);
          colAlternate = (col mod 2 = 1)
      in if (rowAlternate \<and> \<not> colAlternate) \<or> (colAlternate \<and> \<not> rowAlternate)
         then jmul coFactor (num (- 1)) else coFactor)"

text \<open>The scratch matrix \<open>cache.matrixOfCoFactors\<close> after the two loops, for an object
  whose cache is still empty: the scratch matrix is then created as
  \<open>new Matrix(numRows, numCols, false)\<close>.  (An object that was inverted at another size
  keeps the scratch matrix of that size; that case is outside this definition.)\<close>

definition matrixOfCoFactors :: "matrix \<Rightarrow> matrix" where
  "matrixOfCoFactors this =
     foldl (\<lambda>m row. foldl (\<lambda>m col. mstore m (row * cols m + col) (coFactor this row col))
                        m [0..<cols this])
       (new_Matrix (Some (rows this)) (Some (cols this)) (Some False)) [0..<rows this]"

definition invert :: "matrix \<Rightarrow> matrix" where
  "invert this =
     (let numRows = rows this; numCols = cols this
      in if numRows \<noteq> numCols then this
         else if numRows = 2 then
           (let determinant = getDeterminant this
            in if seq determinant (num 0) then this
               else
                 (let invertedDeterminant = jdiv (num 1) determinant;
                      m0 = jmul invertedDeterminant (elem this 3);
                      m1 = jmul invertedDeterminant (jneg (elem this 1));
                      m2 = jmul invertedDeterminant (jneg (elem this 2));
                      m3 = jmul invertedDeterminant (elem this 0)
                  in mstore (mstore (mstore (mstore this 0 m0) 1 m1) 2 m2) 3 m3))
         else
           (let cof = matrixOfCoFactors this;
                originalDeterminant =
                  foldl (\<lambda>acc n. jadd acc (jmul (elem this n) (elem cof n))) (num 0) [0..<numCols]
            in if seq originalDeterminant (num 0) then this
               else
                 (let product = multiply (transpose_matrix cof)
                                  [Scalar (ndiv (Fin 1) (toNumber originalDeterminant))]
                  in this\<lparr>vals := assign_prefix (map (elem product) [0..<len product])
                                       (vals this)\<rparr>)))"

declare getDeterminant.simps [simp del]

section \<open>Properties of \<open>setData\<close>\<close>

lemma aget_append_left: "i < length xs \<Longrightarrow> aget (xs @ ys) i = xs ! i"
  by (simp add: aget_def nth_append)

lemma aget_beyond: "length xs \<le> i \<Longrightarrow> aget xs i = Undefined"
  by (simp add: aget_def)

lemma delete_range_cleared:
  "a \<le> i \<Longrightarrow> i < b \<Longrightarrow> aget (delete_range a b xs) i = Undefined"
  by (auto simp: delete_range_def aget_def nth_append)

lemma assign_prefix_get:
  "aget (assign_prefix new old) i = (if i < length new then new ! i else aget old i)"
  by (auto simp: assign_prefix_def aget_def nth_append)

lemma setData_noop:
  "length data \<noteq> len this \<Longrightarrow>
   \<not> (\<exists>r c. opt_rows = Some r \<and> opt_cols = Some c \<and> r * c = length data) \<Longrightarrow>
   setData this data opt_rows opt_cols = this"
  by (cases opt_rows; cases opt_cols) (auto simp: setData_def)

lemma setData_sized:
  assumes "opt_rows = Some r" "opt_cols = Some c" "r * c = length data"
  shows "setData this data opt_rows opt_cols =
     this\<lparr>vals := assign_prefix data (delete_range (length data) (len this) (vals this)),
          len := length data,
          rows := (if r = 0 then rows this else r),
          cols := (if c = 0 then cols this else c)\<rparr>"
  using assms by (simp add: setData_def)

text \<open>
  Claim C7.  When \<open>setData\<close> is called with a data array whose length differs from the
  current \<open>length\<close> of the matrix, the matrix is returned exactly as it was unless both
  a row count and a column count are supplied and their product is the length of the
  data.  When they are supplied and consistent, the new data replaces the old (the matrix
  has the new length and \<open>toArray\<close> gives back the data) and every slot between the new
  and the old length is cleared.
\<close>

theorem setData_length_contract:
  assumes "length data \<noteq> len this"
  shows "if (\<exists>r c. opt_rows = Some r \<and> opt_cols = Some c \<and> r * c = length data)
         then len (setData this data opt_rows opt_cols) = length data
            \<and> toArray (setData this data opt_rows opt_cols) = data
            \<and> (\<forall>i. length data \<le> i \<and> i < len this \<longrightarrow>
                   elem (setData this data opt_rows opt_cols) i = Undefined)
         else setData this data opt_rows opt_cols = this"
proof (cases "\<exists>r c. opt_rows = Some r \<and> opt_cols = Some c \<and> r * c = length data")
  case False
  show ?thesis by (simp only: False if_False setData_noop[OF assms False])
next
  case True
  then obtain r c where rc: "opt_rows = Some r" "opt_cols = Some c" "r * c = length data" by blast
  let ?m = "setData this data opt_rows opt_cols"
  note eq = setData_sized[OF rc, of this]
  have l: "len ?m = length data" by (simp add: eq)
  have e: "\<And>i. elem ?m i = (if i < length data then data ! i
                        else aget (delete_range (length data) (len this) (vals this)) i)"
    by (simp add: eq elem_def assign_prefix_get)
  have t: "toArray ?m = data"
    by (rule nth_equalityI) (simp_all add: toArray_def l e)
  have c: "\<forall>i. length data \<le> i \<and> i < len this \<longrightarrow> elem ?m i = Undefined"
    by (simp add: e delete_range_cleared)
  show ?thesis using True l t c by simp
qed

theorem setData_length_contract_witness:
  "setData \<lparr>rows = 2, cols = 2, len = 4, vals = [num 1, num 0, num 0, num 1]\<rparr>
      [num 7, num 8] (Some 1) (Some 2)
     = \<lparr>rows = 1, cols = 2, len = 2, vals = [num 7, num 8]\<rparr>
   \<and> setData \<lparr>rows = 2, cols = 2, len = 4, vals = [num 1, num 0, num 0, num 1]\<rparr>
      [num 7, num 8] (Some 2) None
     = \<lparr>rows = 2, cols = 2, len = 4, vals = [num 1, num 0, num 0, num 1]\<rparr>
   \<and> setData \<lparr>rows = 2, cols = 2, len = 4, vals = [num 1, num 0, num 0, num 1]\<rparr>
      [num 7, num 8] (Some 2) (Some 2)
     = \<lparr>rows = 2, cols = 2, len = 4, vals = [num 1, num 0, num 0, num 1]\<rparr>"
  using setData_length_contract[of "[num 7, num 8]"
          "\<lparr>rows = 2, cols = 2, len = 4, vals = [num 1, num 0, num 0, num 1]\<rparr>" "Some 1" "Some 2"]
        setData_length_contract[of "[num 7, num 8]"
          "\<lparr>rows = 2, cols = 2, len = 4, vals = [num 1, num 0, num 0, num 1]\<rparr>" "Some 2" "None"]
        setData_length_contract[of "[num 7, num 8]"
          "\<lparr>rows = 2, cols = 2, len = 4, vals = [num 1, num 0, num 0, num 1]\<rparr>" "Some 2" "Some 2"]
  by (simp add: setData_def assign_prefix_def delete_range_def)

section \<open>Properties of \<open>add\<close> and \<open>subtract\<close>\<close>

text \<open>An argument has the shape of \<open>this\<close> when both counts agree (the test of
  \<open>add\<close> and \<open>subtract\<close>); the object \<open>this\<close> itself always has.\<close>

definition same_shape :: "matrix \<Rightarrow> matrix \<Rightarrow> bool" where
  "same_shape this matrix = (cols matrix = cols this \<and> rows matrix = rows this)"

fun fits :: "matrix \<Rightarrow> argument \<Rightarrow> bool" where
  "fits this This = True"
| "fits this (Other matrix) = same_shape this matrix"

text \<open>The value that an argument holds at position \<open>n\<close> when its turn comes, \<open>v\<close>
  being the value of \<open>this\<close> at \<open>n\<close> at that moment.\<close>

fun argument_elem :: "jsval \<Rightarrow> nat \<Rightarrow> argument \<Rightarrow> jsval" where
  "argument_elem v n This = v"
| "argument_elem v n (Other matrix) = elem matrix n"

lemma add_step_fields [simp]:
  "rows (add_step this m) = rows this" "cols (add_step this m) = cols this"
  "len (add_step this m) = len this"
  by (simp_all add: add_step_def)

lemma subtract_step_fields [simp]:
  "rows (subtract_step this m) = rows this" "cols (subtract_step this m) = cols this"
  "len (subtract_step this m) = len this"
  by (simp_all add: subtract_step_def)

lemma fits_add_step [simp]: "fits (add_step this m) a = fits this a"
  by (cases a) (simp_all add: same_shape_def)

lemma fits_subtract_step [simp]: "fits (subtract_step this m) a = fits this a"
  by (cases a) (simp_all add: same_shape_def)

lemma add_step_skip: "\<not> fits this a \<Longrightarrow> add_step this (argument_now this a) = this"
  by (cases a) (auto simp: add_step_def same_shape_def)

lemma subtract_step_skip: "\<not> fits this a \<Longrightarrow> subtract_step this (argument_now this a) = this"
  by (cases a) (auto simp: subtract_step_def same_shape_def)

lemma add_step_elem:
  "same_shape this m \<Longrightarrow> n < len this \<Longrightarrow>
   elem (add_step this m) n = jadd (elem this n) (elem m n)"
  by (simp add: add_step_def same_shape_def elem_def assign_prefix_get)

lemma subtract_step_elem:
  "same_shape this m \<Longrightarrow> n < len this \<Longrightarrow>
   elem (subtract_step this m) n = jsub (elem this n) (elem m n)"
  by (simp add: subtract_step_def same_shape_def elem_def assign_prefix_get)

lemma add_argument_elem:
  assumes "fits this a" "n < len this"
  shows "elem (add_step this (argument_now this a)) n
       = jadd (elem this n) (argument_elem (elem this n) n a)"
  using assms by (cases a) (simp_all add: add_step_elem same_shape_def)

lemma subtract_argument_elem:
  assumes "fits this a" "n < len this"
  shows "elem (subtract_step this (argument_now this a)) n
       = jsub (elem this n) (argument_elem (elem this n) n a)"
  using assms by (cases a) (simp_all add: subtract_step_elem same_shape_def)

lemma add_skips_mismatched: "add this as = add this (filter (fits this) as)"
  unfolding add_def
proof (induction as arbitrary: this)
  case Nil show ?case by simp
next
  case (Cons a as)
  show ?case
  proof (cases "fits this a")
    case True
    then show ?thesis using Cons.IH[of "add_step this (argument_now this a)"] by simp
  next
    case False
    then show ?thesis using Cons.IH[of this] by (simp add: add_step_skip)
  qed
qed

lemma subtract_skips_mismatched: "subtract this as = subtract this (filter (fits this) as)"
  unfolding subtract_def
proof (induction as arbitrary: this)
  case Nil show ?case by simp
next
  case (Cons a as)
  show ?case
  proof (cases "fits this a")
    case True
    then show ?thesis using Cons.IH[of "subtract_step this (argument_now this a)"] by simp
  next
    case False
    then show ?thesis using Cons.IH[of this] by (simp add: subtract_step_skip)
  qed
qed

lemma add_elementwise:
  "list_all (fits this) as \<Longrightarrow> n < len this \<Longrightarrow>
   elem (add this as) n = foldl (\<lambda>v a. jadd v (argument_elem v n a)) (elem this n) as"
  unfolding add_def
proof (induction as arbitrary: this)
  case Nil show ?case by simp
next
  case (Cons a as)
  let ?t = "add_step this (argument_now this a)"
  have "elem (foldl (\<lambda>this a. add_step this (argument_now this a)) ?t as) n
      = foldl (\<lambda>v a. jadd v (argument_elem v n a)) (elem ?t n) as"
    by (rule Cons.IH) (use Cons.prems in simp_all)
  moreover have "elem ?t n = jadd (elem this n) (argument_elem (elem this n) n a)"
    by (rule add_argument_elem) (use Cons.prems in simp_all)
  ultimately show ?case by simp
qed

lemma subtract_elementwise:
  "list_all (fits this) as \<Longrightarrow> n < len this \<Longrightarrow>
   elem (subtract this as) n = foldl (\<lambda>v a. jsub v (argument_elem v n a)) (elem this n) as"
  unfolding subtract_def
proof (induction as arbitrary: this)
  case Nil show ?case by simp
next
  case (Cons a as)
  let ?t = "subtract_step this (argument_now this a)"
  have "elem (foldl (\<lambda>this a. subtract_step this (argument_now this a)) ?t as) n
      = foldl (\<lambda>v a. jsub v (argument_elem v n a)) (elem ?t n) as"
    by (rule Cons.IH) (use Cons.prems in simp_all)
  moreover have "elem ?t n = jsub (elem this n) (argument_elem (elem this n) n a)"
    by (rule subtract_argument_elem) (use Cons.prems in simp_all)
  ultimately show ?case by simp
qed

lemma delete_range_Nil [simp]: "delete_range a b [] = []"
  by (simp add: delete_range_def)

lemma map_elem_wf: "length (vals m) = len m \<Longrightarrow> map (elem m) [0..<len m] = vals m"
  by (rule nth_equalityI) (simp_all add: elem_def aget_def)

lemma clone_wf:
  assumes "wf A"
  shows "clone A = A"
proof -
  have l: "len A = rows A * cols A" and v: "length (vals A) = len A"
    using assms by (simp_all add: wf_def)
  have 1: "vals (clone A) = vals A"
    by (simp add: clone_def copy_def new_Matrix_plain assign_prefix_def map_elem_wf[OF v])
  have 2: "len (clone A) = len A" by (simp add: clone_def copy_def)
  have 3: "rows (clone A) = rows A" by (simp add: clone_def copy_def new_Matrix_plain)
  have 4: "cols (clone A) = cols A" using l by (auto simp: clone_def copy_def new_Matrix_plain)
  show ?thesis using 1 2 3 4 by (simp add: matrix.equality clone_def copy_def)
qed

text \<open>A clone of a matrix whose \<open>length\<close> is \<open>rows * cols\<close> has the sizes and the
  values of the matrix.\<close>

lemma clone_fields:
  assumes "len A = rows A * cols A"
  shows "rows (clone A) = rows A" "cols (clone A) = cols A" "len (clone A) = len A"
  using assms by (auto simp: clone_def copy_def new_Matrix_plain)

lemma clone_elem: "n < len A \<Longrightarrow> elem (clone A) n = elem A n"
  by (simp add: clone_def copy_def elem_def assign_prefix_get)

text \<open>The values of \<open>Matrix.add(A, B).subtract(B)\<close>: whatever the arithmetic does,
  position \<open>n\<close> holds \<open>(A[n] + B[n]) - B[n]\<close>.\<close>

lemma add_subtract_values:
  assumes l: "len A = rows A * cols A" and s: "same_shape A B"
  shows "rows (subtract (Matrix_add A [B]) [Other B]) = rows A"
    "cols (subtract (Matrix_add A [B]) [Other B]) = cols A"
    "len (subtract (Matrix_add A [B]) [Other B]) = len A"
    "n < len A \<Longrightarrow> elem (subtract (Matrix_add A [B]) [Other B]) n
                    = jsub (jadd (elem A n) (elem B n)) (elem B n)"
proof -
  have r: "subtract (Matrix_add A [B]) [Other B] = subtract_step (add_step (clone A) B) B"
    by (simp add: Matrix_add_def add_def subtract_def)
  have sc: "same_shape (clone A) B" using s by (simp add: same_shape_def clone_fields[OF l])
  then have sa: "same_shape (add_step (clone A) B) B" by (simp add: same_shape_def)
  show "rows (subtract (Matrix_add A [B]) [Other B]) = rows A"
    "cols (subtract (Matrix_add A [B]) [Other B]) = cols A"
    "len (subtract (Matrix_add A [B]) [Other B]) = len A"
    by (simp_all add: r clone_fields[OF l])
  assume n: "n < len A"
  then have "elem (subtract_step (add_step (clone A) B) B) n
      = jsub (jadd (elem (clone A) n) (elem B n)) (elem B n)"
    by (simp add: subtract_step_elem[OF sa] add_step_elem[OF sc] clone_fields[OF l])
  then show "elem (subtract (Matrix_add A [B]) [Other B]) n
                    = jsub (jadd (elem A n) (elem B n)) (elem B n)"
    by (simp add: r clone_elem[OF n])
qed

lemma add_subtract_equals:
  assumes l: "len A = rows A * cols A" and s: "same_shape A B"
  shows "equals (subtract (Matrix_add A [B]) [Other B]) A
       = list_all (\<lambda>n. seq (jsub (jadd (elem A n) (elem B n)) (elem B n)) (elem A n)) [0..<len A]"
proof -
  note v = add_subtract_values[OF l s]
  have "list_all (\<lambda>n. seq (elem (subtract (Matrix_add A [B]) [Other B]) n) (elem A n)) [0..<len A]
      = list_all (\<lambda>n. seq (jsub (jadd (elem A n) (elem B n)) (elem B n)) (elem A n)) [0..<len A]"
    by (rule list.pred_cong[OF refl]) (simp add: v(4))
  then show ?thesis by (simp add: equals_def v(1,2,3))
qed

text \<open>
  Claim C8, as stated, fails: \<open>Matrix.add(A, B).subtract(B).equals(A)\<close> is false for
  \<open>A = [1]\<close> and \<open>B = [Infinity]\<close>, matrices of the same shape, because
  \<open>1 + Infinity - Infinity\<close> is \<open>NaN\<close>.
\<close>

theorem round_trip_fails_at_infinity:
  "\<not> equals
        (subtract (Matrix_add \<lparr>rows = 1, cols = 1, len = 1, vals = [num 1]\<rparr>
                     [\<lparr>rows = 1, cols = 1, len = 1, vals = [Number PosInf]\<rparr>])
                  [Other \<lparr>rows = 1, cols = 1, len = 1, vals = [Number PosInf]\<rparr>])
        \<lparr>rows = 1, cols = 1, len = 1, vals = [num 1]\<rparr>"
  by code_simp

text \<open>
  Claim C8, amended.  \<open>add\<close> and \<open>subtract\<close> skip every argument whose rows or cols
  differ from those of \<open>this\<close>, without any effect on what the other arguments
  contribute.  When every argument fits, each position below \<open>length\<close> accumulates with
  \<open>+=\<close> (respectively \<open>-=\<close>), from left to right, the value the argument holds at that
  position when its turn comes (for an argument that is \<open>this\<close> itself, the value
  accumulated so far).  For a matrix \<open>A\<close> whose \<open>length\<close> is \<open>rows * cols\<close> and a
  matrix \<open>B\<close> with the rows and cols of \<open>A\<close>, \<open>Matrix.add(A, B).subtract(B)\<close> has the
  sizes of \<open>A\<close> and holds \<open>(A[n] + B[n]) - B[n]\<close> at every position \<open>n\<close> below
  \<open>length\<close>; so \<open>equals(A)\<close> returns true exactly when \<open>(A[n] + B[n]) - B[n] === A[n]\<close>
  at every such position, which the arithmetic of the numbers does not ensure.
\<close>

theorem add_subtract_contract:
  "add this as = add this (filter (fits this) as)
   \<and> subtract this as = subtract this (filter (fits this) as)
   \<and> (list_all (fits this) as \<longrightarrow>
        (\<forall>n<len this. elem (add this as) n
           = foldl (\<lambda>v a. jadd v (argument_elem v n a)) (elem this n) as)
      \<and> (\<forall>n<len this. elem (subtract this as) n
           = foldl (\<lambda>v a. jsub v (argument_elem v n a)) (elem this n) as))
   \<and> (len A = rows A * cols A \<and> same_shape A B \<longrightarrow>
        rows (subtract (Matrix_add A [B]) [Other B]) = rows A
      \<and> cols (subtract (Matrix_add A [B]) [Other B]) = cols A
      \<and> len (subtract (Matrix_add A [B]) [Other B]) = len A
      \<and> (\<forall>n<len A. elem (subtract (Matrix_add A [B]) [Other B]) n
                       = jsub (jadd (elem A n) (elem B n)) (elem B n))
      \<and> equals (subtract (Matrix_add A [B]) [Other B]) A
          = list_all (\<lambda>n. seq (jsub (jadd (elem A n) (elem B n)) (elem B n)) (elem A n))
              [0..<len A])"
proof (intro conjI impI allI)
  show "add this as = add this (filter (fits this) as)" by (rule add_skips_mismatched)
  show "subtract this as = subtract this (filter (fits this) as)"
    by (rule subtract_skips_mismatched)
next
  fix n assume "list_all (fits this) as" "n < len this"
  then show "elem (add this as) n
           = foldl (\<lambda>v a. jadd v (argument_elem v n a)) (elem this n) as"
    by (rule add_elementwise)
next
  fix n assume "list_all (fits this) as" "n < len this"
  then show "elem (subtract this as) n
           = foldl (\<lambda>v a. jsub v (argument_elem v n a)) (elem this n) as"
    by (rule subtract_elementwise)
next
  assume h: "len A = rows A * cols A \<and> same_shape A B"
  then have l: "len A = rows A * cols A" and s: "same_shape A B" by simp_all
  show "rows (subtract (Matrix_add A [B]) [Other B]) = rows A"
    by (rule add_subtract_values(1)[OF l s])
  show "cols (subtract (Matrix_add A [B]) [Other B]) = cols A"
    by (rule add_subtract_values(2)[OF l s])
  show "len (subtract (Matrix_add A [B]) [Other B]) = len A"
    by (rule add_subtract_values(3)[OF l s])
  show "equals (subtract (Matrix_add A [B]) [Other B]) A
          = list_all (\<lambda>n. seq (jsub (jadd (elem A n) (elem B n)) (elem B n)) (elem A n))
              [0..<len A]"
    by (rule add_subtract_equals[OF l s])
  fix n assume "n < len A"
  then show "elem (subtract (Matrix_add A [B]) [Other B]) n
                       = jsub (jadd (elem A n) (elem B n)) (elem B n)"
    by (rule add_subtract_values(4)[OF l s])
qed

theorem add_subtract_contract_witness:
  "list_all (fits \<lparr>rows = 1, cols = 3, len = 3, vals = [num 1, num 2, num 3]\<rparr>)
      [Other \<lparr>rows = 1, cols = 3, len = 3, vals = [num 2, num 4, num 6]\<rparr>,
       Other \<lparr>rows = 1, cols = 3, len = 3, vals = [num 8, num 10, num 12]\<rparr>]
   \<and> elem (add \<lparr>rows = 1, cols = 3, len = 3, vals = [num 1, num 2, num 3]\<rparr>
        [Other \<lparr>rows = 1, cols = 3, len = 3, vals = [num 2, num 4, num 6]\<rparr>,
         Other \<lparr>rows = 1, cols = 2, len = 2, vals = [num 4, num 6]\<rparr>,
         Other \<lparr>rows = 1, cols = 3, len = 3, vals = [num 8, num 10, num 12]\<rparr>]) 2 = num 21
   \<and> elem (add \<lparr>rows = 1, cols = 1, len = 1, vals = [num 1]\<rparr>
        [Other \<lparr>rows = 1, cols = 1, len = 1, vals = [num 10]\<rparr>, This]) 0 = num 22
   \<and> elem (subtract (Matrix_add \<lparr>rows = 2, cols = 2, len = 4, vals = [num 1, num 2, num 3, num 4]\<rparr>
                     [\<lparr>rows = 2, cols = 2, len = 4, vals = [num 5, num 6, num 7, num 8]\<rparr>])
                  [Other \<lparr>rows = 2, cols = 2, len = 4, vals = [num 5, num 6, num 7, num 8]\<rparr>]) 3
       = num 4
   \<and> equals (subtract (Matrix_add \<lparr>rows = 2, cols = 2, len = 4, vals = [num 1, num 2, num 3, num 4]\<rparr>
                     [\<lparr>rows = 2, cols = 2, len = 4, vals = [num 5, num 6, num 7, num 8]\<rparr>])
                  [Other \<lparr>rows = 2, cols = 2, len = 4, vals = [num 5, num 6, num 7, num 8]\<rparr>])
        \<lparr>rows = 2, cols = 2, len = 4, vals = [num 1, num 2, num 3, num 4]\<rparr>"
proof -
  let ?t = "\<lparr>rows = 1, cols = 3, len = 3, vals = [num 1, num 2, num 3]\<rparr>"
  let ?m1 = "\<lparr>rows = 1, cols = 3, len = 3, vals = [num 2, num 4, num 6]\<rparr>"
  let ?m2 = "\<lparr>rows = 1, cols = 2, len = 2, vals = [num 4, num 6]\<rparr>"
  let ?m3 = "\<lparr>rows = 1, cols = 3, len = 3, vals = [num 8, num 10, num 12]\<rparr>"
  let ?u = "\<lparr>rows = 1, cols = 1, len = 1, vals = [num 1]\<rparr>"
  let ?w = "\<lparr>rows = 1, cols = 1, len = 1, vals = [num 10]\<rparr>"
  let ?A = "\<lparr>rows = 2, cols = 2, len = 4, vals = [num 1, num 2, num 3, num 4]\<rparr>"
  let ?B = "\<lparr>rows = 2, cols = 2, len = 4, vals = [num 5, num 6, num 7, num 8]\<rparr>"
  have fl: "filter (fits ?t) [Other ?m1, Other ?m2, Other ?m3] = [Other ?m1, Other ?m3]"
    by (simp add: same_shape_def)
  have la: "list_all (fits ?t) [Other ?m1, Other ?m3]" by (simp add: same_shape_def)
  have "add ?t [Other ?m1, Other ?m2, Other ?m3]
      = add ?t (filter (fits ?t) [Other ?m1, Other ?m2, Other ?m3])"
    using add_subtract_contract[of ?t "[Other ?m1, Other ?m2, Other ?m3]" ?A ?B] by blast
  then have 1: "add ?t [Other ?m1, Other ?m2, Other ?m3] = add ?t [Other ?m1, Other ?m3]"
    by (simp only: fl)
  have "\<forall>n<len ?t. elem (add ?t [Other ?m1, Other ?m3]) n
      = foldl (\<lambda>v a. jadd v (argument_elem v n a)) (elem ?t n) [Other ?m1, Other ?m3]"
    using add_subtract_contract[of ?t "[Other ?m1, Other ?m3]" ?A ?B] la by blast
  then have "elem (add ?t [Other ?m1, Other ?m3]) 2
      = foldl (\<lambda>v a. jadd v (argument_elem v 2 a)) (elem ?t 2) [Other ?m1, Other ?m3]"
    by simp
  also have "\<dots> = num 21" by (simp add: elem_def aget_def jadd_def)
  finally have 2: "elem (add ?t [Other ?m1, Other ?m2, Other ?m3]) 2 = num 21" by (simp only: 1)
  have lu: "list_all (fits ?u) [Other ?w, This]" by (simp add: same_shape_def)
  have "\<forall>n<len ?u. elem (add ?u [Other ?w, This]) n
      = foldl (\<lambda>v a. jadd v (argument_elem v n a)) (elem ?u n) [Other ?w, This]"
    using add_subtract_contract[of ?u "[Other ?w, This]" ?A ?B] lu by blast
  then have "elem (add ?u [Other ?w, This]) 0
      = foldl (\<lambda>v a. jadd v (argument_elem v 0 a)) (elem ?u 0) [Other ?w, This]"
    by simp
  also have "\<dots> = num 22" by (simp add: elem_def aget_def jadd_def)
  finally have 3: "elem (add ?u [Other ?w, This]) 0 = num 22" .
  have h: "len ?A = rows ?A * cols ?A \<and> same_shape ?A ?B" by (simp add: same_shape_def)
  have "\<forall>n<len ?A. elem (subtract (Matrix_add ?A [?B]) [Other ?B]) n
                       = jsub (jadd (elem ?A n) (elem ?B n)) (elem ?B n)"
    using add_subtract_contract[of ?t "[Other ?m1, Other ?m3]" ?A ?B] h by blast
  then have "elem (subtract (Matrix_add ?A [?B]) [Other ?B]) 3
                       = jsub (jadd (elem ?A 3) (elem ?B 3)) (elem ?B 3)"
    by simp
  also have "\<dots> = num 4" by (simp add: elem_def aget_def jadd_def jsub_def nsub_def)
  finally have 4: "elem (subtract (Matrix_add ?A [?B]) [Other ?B]) 3 = num 4" .
  have "equals (subtract (Matrix_add ?A [?B]) [Other ?B]) ?A
          = list_all (\<lambda>n. seq (jsub (jadd (elem ?A n) (elem ?B n)) (elem ?B n)) (elem ?A n))
              [0..<len ?A]"
    using add_subtract_contract[of ?t "[Other ?m1, Other ?m3]" ?A ?B] h by blast
  also have "\<dots> = True"
    by (simp add: upt_rec elem_def aget_def jadd_def jsub_def nsub_def)
  finally have 5: "equals (subtract (Matrix_add ?A [?B]) [Other ?B]) ?A" by simp
  show ?thesis using la 2 3 4 5 by simp
qed

section \<open>Properties of \<open>multiply\<close>\<close>

text \<open>
  Without the shortcut, that is when \<open>this\<close> fails \<open>isIdentity\<close>, \<open>multiply\<close> is the
  plain fold, and the fold skips a matrix whose row count is not the column count of the
  running result.
\<close>

lemma multiply_without_shortcut:
  "\<not> isIdentity this \<Longrightarrow> multiply this matrices = multiply_plain this matrices"
  by (simp add: multiply_def multiply_plain_def)

lemma multiply_from_skips_mismatch:
  "cols this \<noteq> rows matrix \<Longrightarrow>
   multiply_from this (Mat matrix # rest) = multiply_from this rest"
  by (simp add: multiply_from_def getData_def)

lemma multiply_from_Nil:
  assumes "length (vals this) = len this"
  shows "multiply_from this [] = this"
proof -
  have "toArray this = vals this" unfolding toArray_def using assms by (rule map_elem_wf)
  then show ?thesis
    by (simp add: multiply_from_def getData_def setData_def assign_prefix_def delete_range_def assms)
qed

lemma multiply_skips_mismatch:
  assumes "\<not> isIdentity this" "cols this \<noteq> rows matrix" "length (vals this) = len this"
  shows "multiply this [Mat matrix] = this"
  using assms by (simp add: multiply_def multiply_from_skips_mismatch multiply_from_Nil)


text \<open>
  Claim C9.  \<open>isIdentity\<close> is a test on positions only, and the matrix \<open>[1, 0, 0]\<close>
  with one row and three columns passes it.  \<open>multiply\<close> skips every argument that
  passes it: for the matrix \<open>[5]\<close> with one row and one column, whose column count is
  the row count of the argument, \<open>multiply\<close> leaves \<open>[5]\<close> as it is, although the loops
  of the product would give the matrix \<open>[5, 0, 0]\<close> with one row and three columns.
\<close>

theorem identity_like_operand_ignored:
  "rows \<lparr>rows = 1, cols = 3, len = 3, vals = [num 1, num 0, num 0]\<rparr>
     \<noteq> cols \<lparr>rows = 1, cols = 3, len = 3, vals = [num 1, num 0, num 0]\<rparr>
   \<and> cols \<lparr>rows = 1, cols = 1, len = 1, vals = [num 5]\<rparr>
     = rows \<lparr>rows = 1, cols = 3, len = 3, vals = [num 1, num 0, num 0]\<rparr>
   \<and> isIdentity \<lparr>rows = 1, cols = 3, len = 3, vals = [num 1, num 0, num 0]\<rparr>
   \<and> multiply \<lparr>rows = 1, cols = 1, len = 1, vals = [num 5]\<rparr>
        [Mat \<lparr>rows = 1, cols = 3, len = 3, vals = [num 1, num 0, num 0]\<rparr>]
     = \<lparr>rows = 1, cols = 1, len = 1, vals = [num 5]\<rparr>
   \<and> product_step (getData \<lparr>rows = 1, cols = 1, len = 1, vals = [num 5]\<rparr>)
        \<lparr>rows = 1, cols = 3, len = 3, vals = [num 1, num 0, num 0]\<rparr>
     = \<lparr>drows = 1, dcols = 3, dvals = [num 5, num 0, num 0]\<rparr>"
  by code_simp

text \<open>
  Claim C3 fails on the code.  With \<open>this\<close> the identity of size 2, \<open>multiply(0)\<close> returns
  the identity unchanged (the test \<open>!next\<close> takes the number \<open>0\<close> for a missing
  argument), while the plain fold makes every value \<open>NaN\<close>; and \<open>multiply(B)\<close> with
  \<open>B\<close> of three rows copies \<open>B\<close> into \<open>this\<close>, while the plain fold skips \<open>B\<close>
  for its shape and leaves the identity.
\<close>

theorem shortcut_differs_from_plain_fold:
  "isIdentity \<lparr>rows = 2, cols = 2, len = 4, vals = [num 1, num 0, num 0, num 1]\<rparr>
   \<and> multiply \<lparr>rows = 2, cols = 2, len = 4, vals = [num 1, num 0, num 0, num 1]\<rparr>
        [Scalar (Fin 0)]
     = \<lparr>rows = 2, cols = 2, len = 4, vals = [num 1, num 0, num 0, num 1]\<rparr>
   \<and> multiply_plain \<lparr>rows = 2, cols = 2, len = 4, vals = [num 1, num 0, num 0, num 1]\<rparr>
        [Scalar (Fin 0)]
     = \<lparr>rows = 2, cols = 2, len = 4,
        vals = [Number NaN, Number NaN, Number NaN, Number NaN]\<rparr>
   \<and> multiply \<lparr>rows = 2, cols = 2, len = 4, vals = [num 1, num 0, num 0, num 1]\<rparr>
        [Mat \<lparr>rows = 3, cols = 1, len = 3, vals = [num 7, num 8, num 9]\<rparr>]
     = \<lparr>rows = 3, cols = 1, len = 3, vals = [num 7, num 8, num 9]\<rparr>
   \<and> multiply_plain \<lparr>rows = 2, cols = 2, len = 4, vals = [num 1, num 0, num 0, num 1]\<rparr>
        [Mat \<lparr>rows = 3, cols = 1, len = 3, vals = [num 7, num 8, num 9]\<rparr>]
     = \<lparr>rows = 2, cols = 2, len = 4, vals = [num 1, num 0, num 0, num 1]\<rparr>"
  by code_simp

text \<open>
  Claim C4 fails on the code.  With \<open>A\<close> the identity of size 2 and \<open>B\<close> a matrix of
  three rows, \<open>A.cols\<close> differs from \<open>B.rows\<close> and yet \<open>A.multiply(B)\<close> turns \<open>A\<close>
  into a copy of \<open>B\<close>: the identity shortcut copies the first argument that is not an
  identity without the test on its shape.  When \<open>A\<close> is not the identity, as in the
  test of the repository, the argument is skipped.
\<close>

theorem mismatched_operand_copied_into_identity:
  "cols \<lparr>rows = 2, cols = 2, len = 4, vals = [num 1, num 0, num 0, num 1]\<rparr>
     \<noteq> rows \<lparr>rows = 3, cols = 3, len = 9,
              vals = [num 2, num 0, num 0, num 0, num 2, num 0, num 0, num 0, num 2]\<rparr>
   \<and> multiply \<lparr>rows = 2, cols = 2, len = 4, vals = [num 1, num 0, num 0, num 1]\<rparr>
        [Mat \<lparr>rows = 3, cols = 3, len = 9,
              vals = [num 2, num 0, num 0, num 0, num 2, num 0, num 0, num 0, num 2]\<rparr>]
     = \<lparr>rows = 3, cols = 3, len = 9,
        vals = [num 2, num 0, num 0, num 0, num 2, num 0, num 0, num 0, num 2]\<rparr>
   \<and> multiply \<lparr>rows = 2, cols = 2, len = 4, vals = [num 1, num 2, num 3, num 4]\<rparr>
        [Mat \<lparr>rows = 1, cols = 3, len = 3, vals = [num 8, num 10, num 12]\<rparr>]
     = \<lparr>rows = 2, cols = 2, len = 4, vals = [num 1, num 2, num 3, num 4]\<rparr>"
  by code_simp

text \<open>
  Claim C6 fails on the code for the scalar \<open>k = 0\<close>: \<open>factor = 1 / 0\<close> is
  \<open>Infinity\<close>, \<open>scale * factor\<close> is \<open>NaN\<close>, and every value of
  \<open>Matrix.multiply(A, 0)\<close> and of \<open>Matrix.multiply(A, 0 / 2, 2)\<close> is \<open>NaN\<close>, so
  \<open>equals\<close> is false.  For \<open>k = 6\<close> the two results are equal.
\<close>

theorem scalar_zero_gives_NaN:
  "Matrix_multiply \<lparr>rows = 2, cols = 2, len = 4, vals = [num 1, num 2, num 3, num 4]\<rparr>
        [Scalar (Fin 0)]
     = \<lparr>rows = 2, cols = 2, len = 4,
        vals = [Number NaN, Number NaN, Number NaN, Number NaN]\<rparr>
   \<and> Matrix_multiply \<lparr>rows = 2, cols = 2, len = 4, vals = [num 1, num 2, num 3, num 4]\<rparr>
        [Scalar (Fin (0 / 2)), Scalar (Fin 2)]
     = \<lparr>rows = 2, cols = 2, len = 4,
        vals = [Number NaN, Number NaN, Number NaN, Number NaN]\<rparr>
   \<and> \<not> equals
        (Matrix_multiply \<lparr>rows = 2, cols = 2, len = 4, vals = [num 1, num 2, num 3, num 4]\<rparr>
           [Scalar (Fin 0)])
        (Matrix_multiply \<lparr>rows = 2, cols = 2, len = 4, vals = [num 1, num 2, num 3, num 4]\<rparr>
           [Scalar (Fin (0 / 2)), Scalar (Fin 2)])
   \<and> equals
        (Matrix_multiply \<lparr>rows = 2, cols = 2, len = 4, vals = [num 1, num 2, num 3, num 4]\<rparr>
           [Scalar (Fin 6)])
        (Matrix_multiply \<lparr>rows = 2, cols = 2, len = 4, vals = [num 1, num 2, num 3, num 4]\<rparr>
           [Scalar (Fin (6 / 2)), Scalar (Fin 2)])"
  by code_simp

theorem scalar_zero_gives_NaN_witness:
  "equals
        (Matrix_multiply \<lparr>rows = 2, cols = 2, len = 4, vals = [num 1, num 2, num 3, num 4]\<rparr>
           [Scalar (Fin 0)])
        (Matrix_multiply \<lparr>rows = 2, cols = 2, len = 4, vals = [num 1, num 2, num 3, num 4]\<rparr>
           [Scalar (Fin (0 / 2)), Scalar (Fin 2)])
     = False"
  using scalar_zero_gives_NaN by blast

section \<open>Properties of \<open>power\<close>\<close>

text \<open>
  Claim C10.  For every square matrix, \<open>power(0)\<close> does not return normally: the
  construction of an array of length \<open>power - 1 = -1\<close> raises a \<open>RangeError\<close>.  So
  \<open>power\<close> returns on a square matrix only for exponents from 1 on.
\<close>

theorem power_zero_raises:
  assumes "rows this = cols this"
  shows "power_matrix this 0 = Inl RangeError
       \<and> (\<forall>p. (\<exists>m. power_matrix this p = Inr m) \<longrightarrow> 1 \<le> p)"
  using assms by (auto simp: power_matrix_def)

theorem power_zero_raises_witness:
  "power_matrix \<lparr>rows = 2, cols = 2, len = 4, vals = [num 1, num 2, num 4, num 1]\<rparr> 0
     = Inl RangeError
   \<and> power_matrix \<lparr>rows = 2, cols = 2, len = 4, vals = [num 1, num 2, num 4, num 1]\<rparr> 1
     = Inr \<lparr>rows = 2, cols = 2, len = 4, vals = [num 1, num 2, num 4, num 1]\<rparr>"
proof -
  let ?m = "\<lparr>rows = 2, cols = 2, len = 4, vals = [num 1, num 2, num 4, num 1]\<rparr>"
  have sq: "rows ?m = cols ?m" by simp
  have 1: "power_matrix ?m 1 = Inr ?m"
    by code_simp
  show ?thesis using power_zero_raises[OF sq] 1 by simp
qed

section \<open>Properties of \<open>getDeterminant\<close>\<close>

text \<open>The minor of a matrix: the values outside row \<open>row\<close> and column \<open>col\<close>, in
  row-major order, with one row and one column less.\<close>

definition minor :: "matrix \<Rightarrow> nat \<Rightarrow> nat \<Rightarrow> matrix" where
  "minor this row col =
     \<lparr>rows = rows this - 1, cols = cols this - 1, len = (rows this - 1) * (cols this - 1),
      vals = concat (map (\<lambda>i. map (\<lambda>j. elem this (i * cols this + j))
                                   (filter (\<lambda>j. j \<noteq> col) [0..<cols this]))
                         (filter (\<lambda>i. i \<noteq> row) [0..<rows this]))\<rparr>"

lemma filter_neq_upt:
  assumes "k < n"
  shows "filter (\<lambda>i. i \<noteq> k) [0..<n] = [0..<k] @ [Suc k..<n]"
proof -
  have 1: "filter (\<lambda>i. i \<noteq> k) [0..<k] = [0..<k]" by (auto simp: filter_id_conv)
  have 2: "filter (\<lambda>i. i \<noteq> k) [Suc k..<n] = [Suc k..<n]" by (auto simp: filter_id_conv)
  show ?thesis using 1 2 by (simp add: upt_split3[OF assms])
qed

lemma index_in_range: "i < r \<Longrightarrow> j < c \<Longrightarrow> i * c + j < r * (c::nat)"
proof -
  assume i: "i < r" and j: "j < c"
  have "i * c + j < i * c + c" using j by simp
  also have "\<dots> = Suc i * c" by simp
  also have "\<dots> \<le> r * c" using i by (intro mult_le_mono1) simp
  finally show ?thesis .
qed

lemma minor_matrix_eq:
  assumes w: "wf this" and r2: "2 \<le> rows this" and c2: "2 \<le> cols this"
    and row: "row < rows this" and col: "col < cols this"
  shows "minor_matrix this row col = minor this row col"
proof -
  let ?r = "rows this" and ?c = "cols this" and ?xs = "vals this"
  have lx: "length ?xs = ?r * ?c" using w by (simp add: wf_def)
  have "length ?xs = len this" using w by (simp add: wf_def)
  then have ta: "toArray this = ?xs" unfolding toArray_def by (rule map_elem_wf)
  let ?nd = "removeColumn (removeRow ?xs row ?c) col ?c"
  have nd: "?nd = concat (map (\<lambda>i. map (\<lambda>j. ?xs ! (i * ?c + j)) ([0..<col] @ [Suc col..<?c]))
                   ([0..<row] @ [Suc row..<?r]))"
    by (rule remove_minor_blocks[OF lx row col])
  have el: "\<And>i j. i < ?r \<Longrightarrow> j < ?c \<Longrightarrow> ?xs ! (i * ?c + j) = elem this (i * ?c + j)"
    using lx by (simp add: elem_def aget_def index_in_range)
  have "?nd = concat (map (\<lambda>i. map (\<lambda>j. elem this (i * ?c + j)) ([0..<col] @ [Suc col..<?c]))
                   ([0..<row] @ [Suc row..<?r]))"
    unfolding nd
    by (rule arg_cong[where f = concat], rule map_cong[OF refl], rule map_cong[OF refl])
       (use el col row in auto)
  then have v: "?nd = vals (minor this row col)"
    by (simp only: minor_def filter_neq_upt[OF row] filter_neq_upt[OF col] matrix.simps)
  have ln: "length ?nd = (?r - 1) * (?c - 1)"
    by (rule length_remove_minor[OF lx row col])
  have "minor_matrix this row col =
     (new_Matrix (Some ?r) (Some ?c) (Some False))
       \<lparr>vals := assign_prefix ?nd (delete_range (length ?nd)
                  (len (new_Matrix (Some ?r) (Some ?c) (Some False)))
                  (vals (new_Matrix (Some ?r) (Some ?c) (Some False)))),
        len := length ?nd,
        rows := (if ?r - 1 = 0 then rows (new_Matrix (Some ?r) (Some ?c) (Some False)) else ?r - 1),
        cols := (if ?c - 1 = 0 then cols (new_Matrix (Some ?r) (Some ?c) (Some False)) else ?c - 1)\<rparr>"
    unfolding minor_matrix_def ta
    by (rule setData_sized) (simp_all add: ln)
  also have "\<dots> = \<lparr>rows = ?r - 1, cols = ?c - 1, len = (?r - 1) * (?c - 1), vals = ?nd\<rparr>"
    using r2 c2 by (simp add: new_Matrix_plain assign_prefix_def ln)
  also have "\<dots> = minor this row col"
    by (simp add: v) (simp add: minor_def)
  finally show ?thesis .
qed

lemma minus_one_power_sign: "(if col mod 2 \<noteq> 0 then num (- 1) else num 1) = num ((- 1) ^ col)"
  by (simp add: minus_one_power_iff even_iff_mod_2_eq_zero)

lemma getDeterminant_laplace:
  assumes sq: "rows this = cols this" and r4: "4 \<le> rows this" and w: "wf this"
  shows "getDeterminant this =
     foldl (\<lambda>result c. jadd result
              (jmul (jmul (num ((- 1) ^ c)) (elem this c)) (getDeterminant (minor this 0 c))))
       (num 0) [0..<cols this]"
proof -
  have "getDeterminant this =
     foldl (\<lambda>result col. jadd result
              (jmul (jmul (if col mod 2 \<noteq> 0 then num (- 1) else num 1) (elem this col))
                    (getDeterminant (minor_matrix this 0 col))))
       (num 0) [0..<cols this]"
    using sq r4 by (subst getDeterminant.simps) simp
  also have "\<dots> = foldl (\<lambda>result c. jadd result
              (jmul (jmul (num ((- 1) ^ c)) (elem this c)) (getDeterminant (minor this 0 c))))
       (num 0) [0..<cols this]"
  proof (rule foldl_cong[OF refl refl])
    fix a x assume "x \<in> set [0..<cols this]"
    then have x: "x < cols this" by simp
    have "minor_matrix this 0 x = minor this 0 x"
      by (rule minor_matrix_eq[OF w]) (use sq r4 x in auto)
    then show "jadd a (jmul (jmul (if x mod 2 \<noteq> 0 then num (- 1) else num 1) (elem this x))
                    (getDeterminant (minor_matrix this 0 x)))
             = jadd a (jmul (jmul (num ((- 1) ^ x)) (elem this x)) (getDeterminant (minor this 0 x)))"
      by (simp only: minus_one_power_sign)
  qed
  finally show ?thesis .
qed

text \<open>
  Claim C2.  \<open>getDeterminant\<close> returns \<open>null\<close> for every matrix that is not square.
  For a square matrix it returns the single value at size 1, \<open>a * d - b * c\<close> at size 2,
  the formula \<open>a * (e * i - f * h) - b * (d * i - f * g) + c * (d * h - e * g)\<close> at size
  3, and from size 4 on (for a well-formed matrix) the expansion along the first row: the
  sum over the columns \<open>c\<close> of \<open>(-1)^c * this[c]\<close> times the determinant of the minor
  without row 0 and column \<open>c\<close>.  The determinant of
  \<open>[[6, 1, 1], [4, -2, 5], [2, 8, 7]]\<close> is \<open>-306\<close>.
\<close>

theorem getDeterminant_cases:
  "(rows this \<noteq> cols this \<longrightarrow> getDeterminant this = Null)
   \<and> (rows this = cols this \<and> rows this = 1 \<longrightarrow> getDeterminant this = elem this 0)
   \<and> (rows this = cols this \<and> rows this = 2 \<longrightarrow>
        getDeterminant this
          = jsub (jmul (elem this 0) (elem this 3)) (jmul (elem this 1) (elem this 2)))
   \<and> (rows this = cols this \<and> rows this = 3 \<longrightarrow>
        getDeterminant this
          = jadd (jsub (jmul (elem this 0)
                          (jsub (jmul (elem this 4) (elem this 8)) (jmul (elem this 5) (elem this 7))))
                       (jmul (elem this 1)
                          (jsub (jmul (elem this 3) (elem this 8)) (jmul (elem this 5) (elem this 6)))))
                 (jmul (elem this 2)
                    (jsub (jmul (elem this 3) (elem this 7)) (jmul (elem this 4) (elem this 6)))))
   \<and> (rows this = cols this \<and> 4 \<le> rows this \<and> wf this \<longrightarrow>
        getDeterminant this
          = foldl (\<lambda>result c. jadd result
                     (jmul (jmul (num ((- 1) ^ c)) (elem this c)) (getDeterminant (minor this 0 c))))
              (num 0) [0..<cols this])
   \<and> getDeterminant \<lparr>rows = 3, cols = 3, len = 9,
          vals = [num 6, num 1, num 1, num 4, num (- 2), num 5, num 2, num 8, num 7]\<rparr>
       = num (- 306)"
proof (intro conjI impI)
  assume "rows this \<noteq> cols this"
  then show "getDeterminant this = Null" by (subst getDeterminant.simps) simp
next
  assume "rows this = cols this \<and> rows this = 1"
  then show "getDeterminant this = elem this 0" by (subst getDeterminant.simps) simp
next
  assume "rows this = cols this \<and> rows this = 2"
  then show "getDeterminant this
          = jsub (jmul (elem this 0) (elem this 3)) (jmul (elem this 1) (elem this 2))"
    by (subst getDeterminant.simps) simp
next
  assume "rows this = cols this \<and> rows this = 3"
  then show "getDeterminant this
          = jadd (jsub (jmul (elem this 0)
                          (jsub (jmul (elem this 4) (elem this 8)) (jmul (elem this 5) (elem this 7))))
                       (jmul (elem this 1)
                          (jsub (jmul (elem this 3) (elem this 8)) (jmul (elem this 5) (elem this 6)))))
                 (jmul (elem this 2)
                    (jsub (jmul (elem this 3) (elem this 7)) (jmul (elem this 4) (elem this 6))))"
    by (subst getDeterminant.simps) (simp add: Let_def)
next
  assume "rows this = cols this \<and> 4 \<le> rows this \<and> wf this"
  then show "getDeterminant this
          = foldl (\<lambda>result c. jadd result
                     (jmul (jmul (num ((- 1) ^ c)) (elem this c)) (getDeterminant (minor this 0 c))))
              (num 0) [0..<cols this]"
    by (simp add: getDeterminant_laplace)
next
  show "getDeterminant \<lparr>rows = 3, cols = 3, len = 9,
          vals = [num 6, num 1, num 1, num 4, num (- 2), num 5, num 2, num 8, num 7]\<rparr>
       = num (- 306)"
    by code_simp
qed

theorem getDeterminant_cases_witness:
  "getDeterminant \<lparr>rows = 2, cols = 3, len = 6,
       vals = [num 1, num 2, num 3, num 4, num 5, num 6]\<rparr> = Null
   \<and> getDeterminant \<lparr>rows = 1, cols = 1, len = 1, vals = [num 7]\<rparr> = num 7
   \<and> getDeterminant \<lparr>rows = 2, cols = 2, len = 4, vals = [num 3, num 4, num 6, num 8]\<rparr> = num 0
   \<and> getDeterminant \<lparr>rows = 4, cols = 4, len = 16,
       vals = [num 4, num 0, num 0, num 0, num 0, num 0, num 2, num 0,
               num 0, num 1, num 2, num 0, num 1, num 0, num 0, num 1]\<rparr> = num (- 8)"
proof -
  let ?a = "\<lparr>rows = 2, cols = 3, len = 6, vals = [num 1, num 2, num 3, num 4, num 5, num 6]\<rparr>"
  let ?b = "\<lparr>rows = 1, cols = 1, len = 1, vals = [num 7]\<rparr>"
  let ?c = "\<lparr>rows = 2, cols = 2, len = 4, vals = [num 3, num 4, num 6, num 8]\<rparr>"
  let ?d = "\<lparr>rows = 4, cols = 4, len = 16,
       vals = [num 4, num 0, num 0, num 0, num 0, num 0, num 2, num 0,
               num 0, num 1, num 2, num 0, num 1, num 0, num 0, num 1]\<rparr>"
  have "rows ?a \<noteq> cols ?a" by simp
  then have a: "getDeterminant ?a = Null" using getDeterminant_cases[of ?a] by blast
  have "rows ?b = cols ?b \<and> rows ?b = 1" by simp
  then have "getDeterminant ?b = elem ?b 0" using getDeterminant_cases[of ?b] by blast
  then have b: "getDeterminant ?b = num 7" by (simp add: elem_def aget_def)
  have "rows ?c = cols ?c \<and> rows ?c = 2" by simp
  then have "getDeterminant ?c = jsub (jmul (elem ?c 0) (elem ?c 3)) (jmul (elem ?c 1) (elem ?c 2))"
    using getDeterminant_cases[of ?c] by blast
  then have c: "getDeterminant ?c = num 0"
    by (simp add: elem_def aget_def jsub_def jmul_def nsub_def)
  have "rows ?d = cols ?d \<and> 4 \<le> rows ?d \<and> wf ?d" by (simp add: wf_def)
  then have "getDeterminant ?d
          = foldl (\<lambda>result c. jadd result
                     (jmul (jmul (num ((- 1) ^ c)) (elem ?d c)) (getDeterminant (minor ?d 0 c))))
              (num 0) [0..<cols ?d]"
    using getDeterminant_cases[of ?d] by blast
  also have "\<dots> = num (- 8)" by code_simp
  finally have d: "getDeterminant ?d = num (- 8)" .
  show ?thesis using a b c d by simp
qed

section \<open>Properties of \<open>invert\<close>\<close>

lemma invert_not_square: "rows this \<noteq> cols this \<Longrightarrow> invert this = this"
  by (simp add: invert_def)

lemma invert_singular_2x2:
  "rows this = 2 \<Longrightarrow> cols this = 2 \<Longrightarrow> seq (getDeterminant this) (num 0) \<Longrightarrow> invert this = this"
  by (simp add: invert_def)

lemma getDeterminant_2x2:
  "getDeterminant \<lparr>rows = 2, cols = 2, len = 4, vals = [num a, num b, num c, num d]\<rparr>
     = num (a * d - b * c)"
  by (subst getDeterminant.simps) (simp add: elem_def aget_def jsub_def jmul_def nsub_def)

lemma invert_2x2:
  assumes "a * d - b * c \<noteq> 0"
  shows "invert \<lparr>rows = 2, cols = 2, len = 4, vals = [num a, num b, num c, num d]\<rparr>
     = \<lparr>rows = 2, cols = 2, len = 4,
        vals = [num (d / (a * d - b * c)), num (- b / (a * d - b * c)),
                num (- c / (a * d - b * c)), num (a / (a * d - b * c))]\<rparr>"
  using assms
  by (simp add: invert_def getDeterminant_2x2 Let_def mstore_def aset_def elem_def aget_def
      jdiv_def jmul_def jneg_def)

lemma upt_0_2: "[0..<2] = [0, 1]" by (simp add: upt_rec)
lemma upt_0_4: "[0..<4] = [0, 1, 2, 3]" by (simp add: upt_rec)

lemma isIdentity_2x2:
  "isIdentity \<lparr>rows = 2, cols = 2, len = 4, vals = [num a, num b, num c, num d]\<rparr>
     \<longleftrightarrow> a = 1 \<and> b = 0 \<and> c = 0 \<and> d = 1"
  by (simp add: isIdentity_def upt_0_4 identity_at_def elem_def aget_def)

lemma jadd_reset: "jadd (if falsy (num x) then num 0 else num x) (num y) = num (x + y)"
  by (simp add: jadd_def)

lemma product_entry_2x2:
  assumes "i < 2" "j < 2"
  shows "product_entry \<lparr>drows = 2, dcols = 2, dvals = [num a0, num a1, num a2, num a3]\<rparr>
       \<lparr>rows = 2, cols = 2, len = 4, vals = [num b0, num b1, num b2, num b3]\<rparr> i j
     = num (([a0, a1, a2, a3] ! (i * 2)) * ([b0, b1, b2, b3] ! j)
          + ([a0, a1, a2, a3] ! (i * 2 + 1)) * ([b0, b1, b2, b3] ! (2 + j)))"
proof -
  have "i = 0 \<or> i = 1" "j = 0 \<or> j = 1" using assms by auto
  then show ?thesis
    by (auto simp: product_entry_def upt_0_2 elem_def aget_def jmul_def jadd_def)
qed

lemma product_step_2x2:
  "product_step \<lparr>drows = 2, dcols = 2, dvals = [num a0, num a1, num a2, num a3]\<rparr>
       \<lparr>rows = 2, cols = 2, len = 4, vals = [num b0, num b1, num b2, num b3]\<rparr>
     = \<lparr>drows = 2, dcols = 2,
        dvals = [num (a0 * b0 + a1 * b2), num (a0 * b1 + a1 * b3),
                 num (a2 * b0 + a3 * b2), num (a2 * b1 + a3 * b3)]\<rparr>"
  by (simp add: product_step_def upt_0_2 product_entry_2x2)

lemma inverse_entries_2x2:
  fixes a b c d D :: rat
  assumes D0: "D \<noteq> 0" and D: "a * d - b * c = D"
  shows "a * (d / D) + b * (- c / D) = 1" "a * (- b / D) + b * (a / D) = 0"
    "c * (d / D) + d * (- c / D) = 0" "c * (- b / D) + d * (a / D) = 1"
proof -
  have "a * (d / D) + b * (- c / D) = (a * d - b * c) / D" by (simp add: diff_divide_distrib)
  then show "a * (d / D) + b * (- c / D) = 1" using D0 by (simp only: D) simp
  show "a * (- b / D) + b * (a / D) = 0" by (simp add: mult.commute)
  show "c * (d / D) + d * (- c / D) = 0" by (simp add: mult.commute)
  have "c * (- b / D) + d * (a / D) = (a * d - b * c) / D"
    by (simp add: diff_divide_distrib mult.commute)
  then show "c * (- b / D) + d * (a / D) = 1" using D0 by (simp only: D) simp
qed

text \<open>
  At size 2, with finite values and a determinant that is not \<open>0\<close>, the product of a
  matrix with the inverse that \<open>invert\<close> computes is the identity (finite arithmetic
  being exact).
\<close>

lemma product_with_inverse_2x2:
  assumes D: "a * d - b * c \<noteq> 0"
  shows "multiply \<lparr>rows = 2, cols = 2, len = 4, vals = [num a, num b, num c, num d]\<rparr>
           [Mat (invert (clone \<lparr>rows = 2, cols = 2, len = 4,
                                 vals = [num a, num b, num c, num d]\<rparr>))]
       = \<lparr>rows = 2, cols = 2, len = 4, vals = [num 1, num 0, num 0, num 1]\<rparr>"
proof -
  let ?M = "\<lparr>rows = 2, cols = 2, len = 4, vals = [num a, num b, num c, num d]\<rparr>"
  let ?D = "a * d - b * c"
  let ?V = "\<lparr>rows = 2, cols = 2, len = 4,
        vals = [num (d / ?D), num (- b / ?D), num (- c / ?D), num (a / ?D)]\<rparr>"
  have "wf ?M" by (simp add: wf_def)
  then have inv: "invert (clone ?M) = ?V" by (simp only: clone_wf invert_2x2[OF D])
  show ?thesis
  proof (cases "isIdentity ?M")
    case True
    then have m: "a = 1" "b = 0" "c = 0" "d = 1" by (simp_all add: isIdentity_2x2)
    have "isIdentity ?V" unfolding isIdentity_2x2 by (simp add: m)
    then show ?thesis using True unfolding inv
      by (simp add: multiply_def) (simp add: m)
  next
    case False
    have nv: "\<not> isIdentity ?V"
    proof
      assume "isIdentity ?V"
      then have v: "d / ?D = 1 \<and> - b / ?D = 0 \<and> - c / ?D = 0 \<and> a / ?D = 1"
        by (simp only: isIdentity_2x2)
      have v1: "d / ?D = 1" and v2: "- b / ?D = 0" and v3: "- c / ?D = 0" and v4: "a / ?D = 1"
        using v by blast+
      have b0: "b = 0" using v2 D by (simp only: divide_eq_0_iff) simp
      have c0: "c = 0" using v3 D by (simp only: divide_eq_0_iff) simp
      have dD: "d = ?D" using v1 by (simp only: right_inverse_eq[OF D])
      have aD: "a = ?D" using v4 by (simp only: right_inverse_eq[OF D])
      have ad: "a = d" using dD aD by simp
      have "a = a * a" using aD b0 ad by simp
      moreover have "a \<noteq> 0" using D b0 by auto
      ultimately have a1: "a = 1" by simp
      then have "isIdentity ?M" using ad b0 c0 by (simp add: isIdentity_2x2)
      with False show False by simp
    qed
    have gd: "getData ?M = \<lparr>drows = 2, dcols = 2, dvals = [num a, num b, num c, num d]\<rparr>"
      by (simp add: getData_def toArray_def upt_0_4 elem_def aget_def)
    note e = inverse_entries_2x2[OF D refl]
    have "multiply_step (getData ?M) (Mat ?V)
        = \<lparr>drows = 2, dcols = 2, dvals = [num 1, num 0, num 0, num 1]\<rparr>"
      unfolding gd using nv by (simp only: multiply_step.simps if_False product_step_2x2 e matrix.simps data.simps refl if_True not_True_eq_False)
    then have "multiply_from ?M [Mat ?V]
        = \<lparr>rows = 2, cols = 2, len = 4, vals = [num 1, num 0, num 0, num 1]\<rparr>"
      by (simp add: multiply_from_def setData_def assign_prefix_def delete_range_def)
    then show ?thesis using False unfolding inv by (simp add: multiply_def)
  qed
qed

lemma nadd_zero_left: "nadd (Fin 0) x = x"
  by (cases x) simp_all

lemma nmul_one_left: "nmul (Fin 1) x = x"
  by (cases x) (simp_all add: inf_of_def)

lemma inf_of_minus: "inf_of (- x) = nneg (inf_of x)"
  by (simp add: inf_of_def)

lemma nmul_minus_one_right: "nmul y (Fin (- 1)) = nneg y"
  by (cases y) (simp_all add: inf_of_def)

lemma nmul_minus_one_left: "nmul (Fin (- 1)) y = nneg y"
  by (cases y) (simp_all add: inf_of_def)

lemma nmul_nneg_right: "nmul x (nneg y) = nneg (nmul x y)"
  by (cases x; cases y) (simp_all add: inf_of_def)

lemma nmul_nneg_left: "nmul (nneg x) y = nneg (nmul x y)"
  by (cases x; cases y) (simp_all add: inf_of_def)

lemma cofactor_term:
  fixes col :: nat
  shows "jmul (jmul (if col mod 2 \<noteq> 0 then num (- 1) else num 1) x) g
       = jmul x (if col mod 2 = 1 then jmul g (num (- 1)) else g)"
proof (cases "col mod 2 = 0")
  case True
  then show ?thesis by (simp add: jmul_def nmul_one_left)
next
  case False
  then have "col mod 2 = 1" by presburger
  then show ?thesis
    by (simp add: jmul_def nmul_minus_one_left nmul_minus_one_right nmul_nneg_right nmul_nneg_left)
qed

lemma coFactor_first_row:
  "coFactor this 0 col
     = (if col mod 2 = 1 then jmul (getDeterminant (minor_matrix this 0 col)) (num (- 1))
        else getDeterminant (minor_matrix this 0 col))"
  by (simp add: coFactor_def Let_def)

text \<open>The inner loop of \<open>invert\<close> appends one row of cofactors.\<close>

lemma cofactor_row_loop:
  assumes l: "length (vals m) = row * cols m" and j: "j \<le> cols m"
  shows "foldl (\<lambda>m col. mstore m (row * cols m + col) (f col)) m [0..<j]
       = m\<lparr>vals := vals m @ map f [0..<j]\<rparr>"
proof -
  define g where "g = (\<lambda>m col. mstore m (row * cols m + col) (f col))"
  have "foldl g m [0..<j] = m\<lparr>vals := vals m @ map f [0..<j]\<rparr>"
  proof (induction j)
    case 0 show ?case by simp
  next
    case (Suc j)
    have "foldl g m [0..<Suc j] = g (foldl g m [0..<j]) j" by simp
    also have "\<dots> = g (m\<lparr>vals := vals m @ map f [0..<j]\<rparr>) j" by (simp only: Suc.IH)
    also have "\<dots> = m\<lparr>vals := vals m @ map f [0..<Suc j]\<rparr>"
      by (simp add: g_def mstore_def aset_def l)
    finally show ?case .
  qed
  then show ?thesis by (simp only: g_def)
qed

lemma cofactor_rows_loop:
  assumes v: "vals m = []" and c: "cols m = c"
  shows "foldl (\<lambda>m row. foldl (\<lambda>m col. mstore m (row * cols m + col) (f row col))
                        m [0..<c]) m [0..<k]
       = m\<lparr>vals := concat (map (\<lambda>row. map (f row) [0..<c]) [0..<k])\<rparr>"
proof -
  define g where "g = (\<lambda>m row. foldl (\<lambda>m col. mstore m (row * cols m + col) (f row col))
                        m [0..<c])"
  have "foldl g m [0..<k] = m\<lparr>vals := concat (map (\<lambda>row. map (f row) [0..<c]) [0..<k])\<rparr>"
  proof (induction k)
    case 0 show ?case using v by simp
  next
    case (Suc k)
    let ?mk = "m\<lparr>vals := concat (map (\<lambda>row. map (f row) [0..<c]) [0..<k])\<rparr>"
    have lk: "length (vals ?mk) = k * cols ?mk"
      by (simp add: length_concat comp_def sum_list_triv c)
    have ck: "c \<le> cols ?mk" by (simp add: c)
    have "foldl g m [0..<Suc k] = g (foldl g m [0..<k]) k" by simp
    also have "\<dots> = g ?mk k" by (simp only: Suc.IH)
    also have "\<dots> = ?mk\<lparr>vals := vals ?mk @ map (f k) [0..<c]\<rparr>"
      unfolding g_def by (rule cofactor_row_loop[OF lk ck])
    also have "\<dots> = m\<lparr>vals := concat (map (\<lambda>row. map (f row) [0..<c]) [0..<Suc k])\<rparr>"
      by simp
    finally show ?case .
  qed
  then show ?thesis by (simp only: g_def)
qed

lemma matrixOfCoFactors_vals:
  assumes "cols this \<noteq> 0"
  shows "matrixOfCoFactors this
       = \<lparr>rows = rows this, cols = cols this, len = rows this * cols this,
          vals = concat (map (\<lambda>row. map (coFactor this row) [0..<cols this]) [0..<rows this])\<rparr>"
proof -
  let ?f = "\<lparr>rows = rows this, cols = cols this, len = rows this * cols this, vals = []\<rparr>"
  have f: "new_Matrix (Some (rows this)) (Some (cols this)) (Some False) = ?f"
    using assms by (simp add: new_Matrix_plain)
  have "foldl (\<lambda>m row. foldl (\<lambda>m col. mstore m (row * cols m + col) (coFactor this row col))
                        m [0..<cols this]) ?f [0..<rows this]
       = ?f\<lparr>vals := concat (map (\<lambda>row. map (coFactor this row) [0..<cols this]) [0..<rows this])\<rparr>"
    by (rule cofactor_rows_loop) simp_all
  then show ?thesis unfolding matrixOfCoFactors_def f by simp
qed

lemma matrixOfCoFactors_first_row:
  assumes "0 < rows this" "n < cols this"
  shows "elem (matrixOfCoFactors this) n = coFactor this 0 n"
proof -
  have c: "cols this \<noteq> 0" using assms by simp
  have "[0..<rows this] = 0 # [1..<rows this]" using assms(1) by (simp add: upt_rec)
  then have "vals (matrixOfCoFactors this)
      = map (coFactor this 0) [0..<cols this]
        @ concat (map (\<lambda>row. map (coFactor this row) [0..<cols this]) [1..<rows this])"
    by (simp add: matrixOfCoFactors_vals[OF c])
  then show ?thesis using assms(2) by (simp add: elem_def aget_def nth_append)
qed

lemma upt_0_3: "[0..<3] = [0, 1, 2]" by (simp add: upt_rec)

text \<open>The local \<open>originalDeterminant\<close> of \<open>invert\<close>: the sum of the values of the
  first row, each times its cofactor.\<close>

definition originalDeterminant :: "matrix \<Rightarrow> jsval" where
  "originalDeterminant this =
     foldl (\<lambda>acc n. jadd acc (jmul (elem this n) (elem (matrixOfCoFactors this) n)))
       (num 0) [0..<cols this]"

lemma invert_general:
  "rows this = cols this \<Longrightarrow> rows this \<noteq> 2 \<Longrightarrow> seq (originalDeterminant this) (num 0) \<Longrightarrow>
   invert this = this"
  by (simp add: invert_def originalDeterminant_def Let_def)

lemma originalDeterminant_cofactors:
  assumes "0 < rows this"
  shows "originalDeterminant this =
     foldl (\<lambda>acc n. jadd acc (jmul (elem this n) (coFactor this 0 n))) (num 0) [0..<cols this]"
  unfolding originalDeterminant_def
proof (rule foldl_cong[OF refl refl])
  fix a x assume "x \<in> set [0..<cols this]"
  then have "x < cols this" by simp
  then show "jadd a (jmul (elem this x) (elem (matrixOfCoFactors this) x))
           = jadd a (jmul (elem this x) (coFactor this 0 x))"
    by (simp only: matrixOfCoFactors_first_row[OF assms])
qed

lemma originalDeterminant_large:
  assumes sq: "rows this = cols this" and r4: "4 \<le> rows this"
  shows "originalDeterminant this = getDeterminant this"
proof -
  have r0: "0 < rows this" using r4 by simp
  have "getDeterminant this =
     foldl (\<lambda>result col. jadd result
              (jmul (jmul (if col mod 2 \<noteq> 0 then num (- 1) else num 1) (elem this col))
                    (getDeterminant (minor_matrix this 0 col))))
       (num 0) [0..<cols this]"
    using sq r4 by (subst getDeterminant.simps) simp
  also have "\<dots> = foldl (\<lambda>acc n. jadd acc (jmul (elem this n) (coFactor this 0 n)))
       (num 0) [0..<cols this]"
    by (rule foldl_cong[OF refl refl]) (simp only: cofactor_term coFactor_first_row)
  finally show ?thesis by (simp only: originalDeterminant_cofactors[OF r0])
qed

lemma getDeterminant_minors_3x3:
  assumes "rows this = 3" "cols this = 3"
  shows "getDeterminant (minor this 0 0)
           = jsub (jmul (elem this 4) (elem this 8)) (jmul (elem this 5) (elem this 7))"
    "getDeterminant (minor this 0 1)
           = jsub (jmul (elem this 3) (elem this 8)) (jmul (elem this 5) (elem this 6))"
    "getDeterminant (minor this 0 2)
           = jsub (jmul (elem this 3) (elem this 7)) (jmul (elem this 4) (elem this 6))"
proof -
  have v: "vals (minor this 0 0) = [elem this 4, elem this 5, elem this 7, elem this 8]"
    "vals (minor this 0 1) = [elem this 3, elem this 5, elem this 6, elem this 8]"
    "vals (minor this 0 2) = [elem this 3, elem this 4, elem this 6, elem this 7]"
    by (simp_all add: minor_def assms upt_0_3)
  have d: "\<And>k. getDeterminant (minor this 0 k) =
     jsub (jmul (aget (vals (minor this 0 k)) 0) (aget (vals (minor this 0 k)) 3))
          (jmul (aget (vals (minor this 0 k)) 1) (aget (vals (minor this 0 k)) 2))"
    by (subst getDeterminant.simps) (simp add: minor_def assms elem_def)
  show "getDeterminant (minor this 0 0)
           = jsub (jmul (elem this 4) (elem this 8)) (jmul (elem this 5) (elem this 7))"
    by (simp only: d v) (simp add: aget_def)
  show "getDeterminant (minor this 0 1)
           = jsub (jmul (elem this 3) (elem this 8)) (jmul (elem this 5) (elem this 6))"
    by (simp only: d v) (simp add: aget_def)
  show "getDeterminant (minor this 0 2)
           = jsub (jmul (elem this 3) (elem this 7)) (jmul (elem this 4) (elem this 6))"
    by (simp only: d v) (simp add: aget_def)
qed

lemma originalDeterminant_3x3:
  assumes sq: "rows this = cols this" and r3: "rows this = 3" and w: "wf this"
  shows "originalDeterminant this = getDeterminant this"
proof -
  have c3: "cols this = 3" using sq r3 by simp
  have r0: "0 < rows this" using r3 by simp
  have mm: "\<And>k. k < 3 \<Longrightarrow> minor_matrix this 0 k = minor this 0 k"
    by (rule minor_matrix_eq[OF w]) (simp_all add: r3 c3)
  note gm = getDeterminant_minors_3x3[OF r3 c3]
  have c0: "coFactor this 0 0
      = jsub (jmul (elem this 4) (elem this 8)) (jmul (elem this 5) (elem this 7))"
    by (simp add: coFactor_first_row mm gm)
  have c1: "coFactor this 0 1
      = jmul (jsub (jmul (elem this 3) (elem this 8)) (jmul (elem this 5) (elem this 6))) (num (- 1))"
    by (simp add: coFactor_first_row mm gm del: One_nat_def)
  have c2: "coFactor this 0 2
      = jsub (jmul (elem this 3) (elem this 7)) (jmul (elem this 4) (elem this 6))"
    by (simp add: coFactor_first_row mm gm)
  have "originalDeterminant this =
     jadd (jadd (jadd (num 0) (jmul (elem this 0) (coFactor this 0 0)))
                (jmul (elem this 1) (coFactor this 0 1)))
          (jmul (elem this 2) (coFactor this 0 2))"
    by (simp add: originalDeterminant_cofactors[OF r0] c3 upt_0_3)
  also have "\<dots> =
     jadd (jsub (jmul (elem this 0)
                   (jsub (jmul (elem this 4) (elem this 8)) (jmul (elem this 5) (elem this 7))))
                (jmul (elem this 1)
                   (jsub (jmul (elem this 3) (elem this 8)) (jmul (elem this 5) (elem this 6)))))
          (jmul (elem this 2)
             (jsub (jmul (elem this 3) (elem this 7)) (jmul (elem this 4) (elem this 6))))"
    unfolding c0 c1 c2
    by (simp add: jadd_def jsub_def jmul_def nsub_def nadd_zero_left nmul_minus_one_right
        nmul_nneg_right)
  also have "\<dots> = getDeterminant this"
    by (subst getDeterminant.simps[of this]) (simp add: sq r3 c3 Let_def)
  finally show ?thesis .
qed

text \<open>
  On a well-formed square matrix of any size but 1 whose determinant is \<open>0\<close> and whose
  cache is still empty, \<open>invert\<close> changes nothing: the determinant it computes from the
  cofactors is the value of \<open>getDeterminant\<close>.
\<close>

lemma invert_singular:
  assumes sq: "rows this = cols this" and r1: "rows this \<noteq> 1" and w: "wf this"
    and s: "seq (getDeterminant this) (num 0)"
  shows "invert this = this"
proof -
  consider "rows this = 0" | "rows this = 2" | "rows this = 3" | "4 \<le> rows this"
    using r1 by linarith
  then show ?thesis
  proof cases
    case 1
    then have "originalDeterminant this = num 0" using sq by (simp add: originalDeterminant_def)
    then show ?thesis using sq 1 by (simp add: invert_general)
  next
    case 2
    then show ?thesis using sq s by (simp add: invert_singular_2x2)
  next
    case 3
    then show ?thesis using sq s w by (simp add: invert_general originalDeterminant_3x3)
  next
    case 4
    then show ?thesis using sq s by (simp add: invert_general originalDeterminant_large)
  qed
qed

text \<open>
  Claim C1 fails on the code at size 1.  The matrix \<open>[5]\<close> is square with determinant
  \<open>5\<close>, but its minor has no rows: the scratch matrix keeps its size 1 with no value,
  its determinant is \<open>undefined\<close>, and the inverse that \<open>invert\<close> computes is \<open>[NaN]\<close>.
  The product of \<open>[5]\<close> with it is \<open>[NaN]\<close>, not the identity.
\<close>

theorem inverse_of_1x1_is_NaN:
  "getDeterminant \<lparr>rows = 1, cols = 1, len = 1, vals = [num 5]\<rparr> = num 5
   \<and> invert (clone \<lparr>rows = 1, cols = 1, len = 1, vals = [num 5]\<rparr>)
     = \<lparr>rows = 1, cols = 1, len = 1, vals = [Number NaN]\<rparr>
   \<and> multiply \<lparr>rows = 1, cols = 1, len = 1, vals = [num 5]\<rparr>
        [Mat (invert (clone \<lparr>rows = 1, cols = 1, len = 1, vals = [num 5]\<rparr>))]
     = \<lparr>rows = 1, cols = 1, len = 1, vals = [Number NaN]\<rparr>
   \<and> \<not> isIdentity (multiply \<lparr>rows = 1, cols = 1, len = 1, vals = [num 5]\<rparr>
        [Mat (invert (clone \<lparr>rows = 1, cols = 1, len = 1, vals = [num 5]\<rparr>))])"
  by code_simp

text \<open>
  Claim C5 fails on the code at size 1.  The matrix \<open>[0]\<close> is square with determinant
  \<open>0\<close>, and \<open>invert\<close> changes it to \<open>[NaN]\<close>: the determinant that \<open>invert\<close>
  computes from the cofactors is \<open>NaN\<close>, which is not \<open>0\<close>.  The matrix
  \<open>[[3, 4], [6, 8]]\<close> of the claim has determinant \<open>0\<close> and is left unchanged.
\<close>

theorem invert_changes_singular_1x1:
  "getDeterminant \<lparr>rows = 1, cols = 1, len = 1, vals = [num 0]\<rparr> = num 0
   \<and> invert \<lparr>rows = 1, cols = 1, len = 1, vals = [num 0]\<rparr>
     = \<lparr>rows = 1, cols = 1, len = 1, vals = [Number NaN]\<rparr>
   \<and> getDeterminant \<lparr>rows = 2, cols = 2, len = 4, vals = [num 3, num 4, num 6, num 8]\<rparr>
     = num 0
   \<and> invert \<lparr>rows = 2, cols = 2, len = 4, vals = [num 3, num 4, num 6, num 8]\<rparr>
     = \<lparr>rows = 2, cols = 2, len = 4, vals = [num 3, num 4, num 6, num 8]\<rparr>"
  by code_simp

end
